theory Spec2Isabelle
  imports Main
begin

section \<open>JavaScript strings and optional values\<close>

text \<open>
  A string is a list of 8-bit characters; text beyond ASCII is its UTF-8 bytes, so lengths
  agree with JavaScript's on ASCII text. \<open>String.prototype.trim\<close> removes the white
  space at both ends: tab, line feed, vertical tab, form feed, carriage return and space.
  The white space beyond ASCII that JavaScript also removes (such as U+00A0) is not modelled.
\<close>

definition is_ws :: "char \<Rightarrow> bool" where
  "is_ws c = (c \<in> set [CHR 0x09, CHR 0x0A, CHR 0x0B, CHR 0x0C, CHR 0x0D, CHR '' ''])"

definition trim :: "string \<Rightarrow> string" where
  "trim s = rev (dropWhile is_ws (rev (dropWhile is_ws s)))"

text \<open>\<open>x?.trim()\<close> on an optional string.\<close>

definition opt_trim :: "string option \<Rightarrow> string option" where
  "opt_trim x = map_option trim x"

text \<open>\<open>x || d\<close> on an optional string: absent and empty are both falsy.\<close>

definition or_else :: "string option \<Rightarrow> string \<Rightarrow> string" where
  "or_else x d = (case x of None \<Rightarrow> d | Some s \<Rightarrow> if s = [] then d else s)"

text \<open>Truthiness of an optional string, as in \<open>if (x)\<close>.\<close>

definition truthy :: "string option \<Rightarrow> bool" where
  "truthy x = (case x of None \<Rightarrow> False | Some s \<Rightarrow> s \<noteq> [])"

text \<open>\<open>Array.prototype.join\<close>.\<close>

fun join :: "string \<Rightarrow> string list \<Rightarrow> string" where
  "join sep [] = []"
| "join sep [x] = x"
| "join sep (x # y # ys) = x @ sep @ join sep (y # ys)"

text \<open>\<open>xs.slice(-n)\<close>: the last \<open>n\<close> elements, all of them when there are fewer.\<close>

definition slice_last :: "nat \<Rightarrow> 'a list \<Rightarrow> 'a list" where
  "slice_last n xs = drop (length xs - n) xs"

text \<open>Decimal rendering of an integer-valued number inside a template literal.\<close>

definition digit_char :: "nat \<Rightarrow> char" where
  "digit_char d = ''0123456789'' ! d"

fun show_nat :: "nat \<Rightarrow> string" where
  "show_nat n = (if n < 10 then [digit_char n] else show_nat (n div 10) @ [digit_char (n mod 10)])"

declare show_nat.simps [simp del]

definition show_int :: "int \<Rightarrow> string" where
  "show_int i = (if i < 0 then CHR ''-'' # show_nat (nat (- i)) else show_nat (nat i))"

definition newline :: string where
  "newline = [CHR 0x0A]"

section \<open>Events (events.ts)\<close>

record Thread =
  postId :: string
  postContent :: "string option"
  commentId :: "string option"
  commentText :: "string option"

record Summary =
  sum_content :: "string option"
  sum_title :: "string option"
  channelName :: "string option"
  channelUrl :: "string option"
  messageCount :: "nat option"
  timeRange :: "string option"
  summaryType :: "string option"

record Participant =
  p_agentType :: string
  p_instanceId :: "string option"
  displayName :: "string option"
  role :: "string option"

record HistoryEntry =
  h_agentType :: string
  h_content :: string

record KeyPoint =
  k_content :: string

record EnsembleContext =
  topic :: string
  turnNumber :: int
  roundNumber :: int
  isStarter :: bool
  recentHistory :: "HistoryEntry list"
  keyPoints :: "KeyPoint list"

record CommonlyEventPayload =
  messageId :: "string option"
  content :: "string option"
  userId :: "string option"
  username :: "string option"
  mentions :: "string list option"
  source :: "string option"
  thread :: "Thread option"
  summary :: "Summary option"
  ensembleId :: "string option"
  participants :: "Participant list option"
  ens_context :: "EnsembleContext option"

text \<open>
  The handlers read \<open>event.payload?.x\<close>, \<open>event._id\<close> and \<open>event.podId\<close>
  defensively, so payload, id and pod id are optional in the model.
\<close>

record CommonlyEvent =
  ev_id :: "string option"
  ev_type :: string
  podId :: "string option"
  payload :: "CommonlyEventPayload option"

text \<open>\<open>event.payload?.content\<close> and its siblings.\<close>

definition payload_content :: "CommonlyEvent \<Rightarrow> string option" where
  "payload_content ev = Option.bind (payload ev) content"

definition payload_thread :: "CommonlyEvent \<Rightarrow> Thread option" where
  "payload_thread ev = Option.bind (payload ev) thread"

definition payload_postContent :: "CommonlyEvent \<Rightarrow> string option" where
  "payload_postContent ev = Option.bind (payload_thread ev) postContent"

section \<open>Body formatting (channel.ts)\<close>

definition buildSummaryMessage :: "Summary option \<Rightarrow> string" where
  "buildSummaryMessage s =
     (case s of
        None \<Rightarrow> []
      | Some sm \<Rightarrow>
          join newline
            ([or_else (opt_trim (sum_title sm)) ''Commonly Update'']
             @ (if truthy (opt_trim (channelName sm))
                then [[CHR 0xF0, CHR 0x9F, CHR 0x94, CHR 0x97] @ '' #'' @ the (opt_trim (channelName sm))]
                else [])
             @ (case messageCount sm of
                  None \<Rightarrow> []
                | Some n \<Rightarrow>
                    if n = 0 then []
                    else [[CHR 0xF0, CHR 0x9F, CHR 0x92, CHR 0xAC] @ '' '' @ show_nat n @ '' messages''])
             @ (if truthy (timeRange sm)
                then [[CHR 0xF0, CHR 0x9F, CHR 0x95, CHR 0x90] @ '' '' @ the (timeRange sm)]
                else [])
             @ (if truthy (sum_content sm) then [[], the (sum_content sm)] else [])))"

definition formatThreadBody :: "CommonlyEvent \<Rightarrow> string" where
  "formatThreadBody ev =
     (let c = or_else (opt_trim (payload_content ev)) []
      in if \<not> truthy (payload_postContent ev) then c
         else join (newline @ newline)
                ([''Post: '' @ trim (the (payload_postContent ev))]
                 @ (if c \<noteq> [] then [''Comment: '' @ c] else [])))"

definition starter_sentence :: "bool \<Rightarrow> string" where
  "starter_sentence b =
     (if b then ''You are the starter. Provide the opening message.''
      else ''You are responding to the ongoing discussion.'')"

definition participant_name :: "Participant \<Rightarrow> string" where
  "participant_name p =
     or_else (displayName p) (p_agentType p) @ '' ('' @ p_agentType p @ '':''
       @ or_else (p_instanceId p) ''default'' @ '')''"

definition formatEnsembleTurnBody :: "CommonlyEvent \<Rightarrow> string" where
  "formatEnsembleTurnBody ev =
     (case Option.bind (payload ev) ens_context of
        None \<Rightarrow> []
      | Some cx \<Rightarrow>
          (let ps = (case Option.bind (payload ev) participants of None \<Rightarrow> [] | Some l \<Rightarrow> l)
           in join newline
                ([''Ensemble topic: '' @ topic cx,
                  ''Turn: '' @ show_int (turnNumber cx) @ '' (round '' @ show_int (roundNumber cx) @ '')'',
                  starter_sentence (isStarter cx)]
                 @ (if ps \<noteq> [] then [''Participants: '' @ join '', '' (map participant_name ps)] else [])
                 @ (if recentHistory cx \<noteq> []
                    then [[], ''Recent history:'']
                         @ map (\<lambda>e. ''- '' @ h_agentType e @ '': '' @ h_content e)
                             (slice_last 5 (recentHistory cx))
                    else [])
                 @ (if keyPoints cx \<noteq> []
                    then [[], ''Key points:'']
                         @ map (\<lambda>e. ''- '' @ k_content e) (slice_last 5 (keyPoints cx))
                    else []))))"

section \<open>The host's inbound context and reply payload\<close>

record InboundContext =
  Body :: string
  RawBody :: string
  CommandBody :: string
  From :: string
  To :: string
  SessionKey :: string
  AccountId :: string
  ChatType :: string
  ConversationLabel :: "string option"
  GroupSubject :: "string option"
  SenderName :: "string option"
  SenderId :: "string option"
  Provider :: string
  Surface :: string
  MessageSid :: "string option"
  ThreadStarterBody :: "string option"
  MessageThreadId :: "string option"
  WasMentioned :: bool
  OriginatingChannel :: string
  OriginatingTo :: string

record ReplyPayload =
  rp_text :: "string option"
  mediaUrl :: "string option"

record AgentRoute =
  sessionKey :: string
  route_accountId :: string
  agentId :: string
  mainSessionKey :: string

section \<open>HTTP, JSON and the trace of effects\<close>

datatype json =
    JNull | JBool bool | JNum int | JStr string | JArr "json list" | JObj "(string \<times> json) list"

text \<open>
  What a client method can throw: \<open>new Error(msg)\<close>, a rejected \<open>fetch\<close>, a body
  that \<open>res.json()\<close> cannot decode, and a property read on \<open>null\<close>.
\<close>

datatype error = Error string | FetchFailed | SyntaxError | TypeError

datatype http_method = GET | POST

text \<open>
  The endpoint a request goes to. The URL is \<open>baseUrl\<close> followed by \<open>path_of\<close>;
  \<open>baseUrl\<close> is taken to be an absolute URL, so that \<open>new URL(...)\<close> succeeds, and the
  query parameters are kept as the list of pairs that were appended.
\<close>

datatype endpoint =
    EpHealth
  | EpEvents
  | EpAck string
  | EpPodMessages string
  | EpThreadComments string
  | EpPodContext string
  | EpSearch string
  | EpMemoryFile string string
  | EpMemory string
  | EpSummaries string
  | EpEnsembleResponse string

fun path_of :: "endpoint \<Rightarrow> string" where
  "path_of EpHealth = ''/api/health''"
| "path_of EpEvents = ''/api/agents/runtime/events''"
| "path_of (EpAck eventId) = ''/api/agents/runtime/events/'' @ eventId @ ''/ack''"
| "path_of (EpPodMessages pod) = ''/api/agents/runtime/pods/'' @ pod @ ''/messages''"
| "path_of (EpThreadComments threadId) = ''/api/agents/runtime/threads/'' @ threadId @ ''/comments''"
| "path_of (EpPodContext pod) = ''/api/agents/runtime/pods/'' @ pod @ ''/context''"
| "path_of (EpSearch pod) = ''/api/v1/search/'' @ pod"
| "path_of (EpMemoryFile pod path) = ''/api/v1/pods/'' @ pod @ ''/memory/'' @ path"
| "path_of (EpMemory pod) = ''/api/v1/memory/'' @ pod"
| "path_of (EpSummaries pod) = ''/api/v1/pods/'' @ pod @ ''/summaries''"
| "path_of (EpEnsembleResponse pod) = ''/api/pods/'' @ pod @ ''/ensemble/response''"

record Request =
  req_method :: http_method
  req_base :: string
  req_endpoint :: endpoint
  req_query :: "(string \<times> string) list"
  req_auth :: "string option"
  req_body :: "json option"

definition req_url :: "Request \<Rightarrow> string" where
  "req_url rq = req_base rq @ path_of (req_endpoint rq)"

text \<open>
  A response: \<open>res.ok\<close>, \<open>res.status\<close> and what \<open>res.json()\<close> decodes; a body
  that is not JSON is \<open>None\<close>, and \<open>res.json()\<close> rejects on it.
\<close>

record Response =
  ok :: bool
  status :: nat
  body :: "json option"

text \<open>Status patches the account handler sends to \<open>ctx.setStatus\<close> (time stamps left out).\<close>

datatype status_patch = InboundSeen | OutboundSent

text \<open>Every effect of the client and of the account handler, in the order it happens.\<close>

datatype action =
    Fetch Request
  | Warn string
  | LogWarn string
  | ReplyFailed error
  | SetStatus status_patch
  | RecordInbound InboundContext
  | Dispatch InboundContext "string option"

text \<open>
  The network: what \<open>fetch\<close> answers to a request, given everything that happened
  before; \<open>None\<close> is a rejected \<open>fetch\<close>.
\<close>

type_synonym network = "action list \<Rightarrow> Request \<Rightarrow> Response option"

type_synonym 'a io = "action list \<Rightarrow> (error + 'a) \<times> action list"

definition ret :: "'a \<Rightarrow> 'a io" where
  "ret x tr = (Inr x, tr)"

definition throw :: "error \<Rightarrow> 'a io" where
  "throw e tr = (Inl e, tr)"

definition bind :: "'a io \<Rightarrow> ('a \<Rightarrow> 'b io) \<Rightarrow> 'b io" where
  "bind m f tr = (case m tr of (Inl e, tr') \<Rightarrow> (Inl e, tr') | (Inr x, tr') \<Rightarrow> f x tr')"

definition emit :: "action \<Rightarrow> unit io" where
  "emit a tr = (Inr (), tr @ [a])"

definition lift :: "error + 'a \<Rightarrow> 'a io" where
  "lift r tr = (r, tr)"

definition fetch :: "network \<Rightarrow> Request \<Rightarrow> Response io" where
  "fetch net rq tr =
     (case net tr rq of
        None \<Rightarrow> (Inl FetchFailed, tr @ [Fetch rq])
      | Some r \<Rightarrow> (Inr r, tr @ [Fetch rq]))"

text \<open>\<open>res.json()\<close>.\<close>

definition json_of :: "Response \<Rightarrow> json io" where
  "json_of r = lift (case body r of None \<Rightarrow> Inl SyntaxError | Some j \<Rightarrow> Inr j)"

fun js_truthy :: "json \<Rightarrow> bool" where
  "js_truthy JNull = False"
| "js_truthy (JBool b) = b"
| "js_truthy (JNum n) = (n \<noteq> 0)"
| "js_truthy (JStr s) = (s \<noteq> [])"
| "js_truthy (JArr xs) = True"
| "js_truthy (JObj kvs) = True"

text \<open>\<open>data.k\<close>: a type error on \<open>null\<close>, the property of an object, undefined otherwise.\<close>

fun get_prop :: "json \<Rightarrow> string \<Rightarrow> error + json option" where
  "get_prop JNull k = Inl TypeError"
| "get_prop (JObj kvs) k = Inr (map_of kvs k)"
| "get_prop j k = Inr None"

text \<open>\<open>data.k || d\<close>.\<close>

definition prop_or :: "json \<Rightarrow> string \<Rightarrow> json \<Rightarrow> json io" where
  "prop_or d k dflt =
     lift (case get_prop d k of
             Inl e \<Rightarrow> Inl e
           | Inr None \<Rightarrow> Inr dflt
           | Inr (Some v) \<Rightarrow> Inr (if js_truthy v then v else dflt))"

section \<open>The REST client (client.ts)\<close>

record CommonlyClientConfig =
  baseUrl :: string
  runtimeToken :: "string option"
  userToken :: "string option"
  agentName :: "string option"
  instanceId :: "string option"

definition runtimeHeaders :: "CommonlyClientConfig \<Rightarrow> string io" where
  "runtimeHeaders cfg =
     (let token = opt_trim (runtimeToken cfg)
      in if \<not> truthy token then throw (Error ''Commonly runtime token is required'')
         else ret (''Bearer '' @ the token))"

definition userHeaders :: "CommonlyClientConfig \<Rightarrow> string io" where
  "userHeaders cfg =
     (let token = (if truthy (opt_trim (userToken cfg)) then opt_trim (userToken cfg)
                   else opt_trim (runtimeToken cfg))
      in if \<not> truthy token then throw (Error ''Commonly user token is required'')
         else ret (''Bearer '' @ the token))"

definition mk_request ::
  "CommonlyClientConfig \<Rightarrow> http_method \<Rightarrow> endpoint \<Rightarrow> (string \<times> string) list \<Rightarrow>
     string option \<Rightarrow> json option \<Rightarrow> Request" where
  "mk_request cfg m ep q auth b =
     \<lparr>req_method = m, req_base = baseUrl cfg, req_endpoint = ep, req_query = q,
      req_auth = auth, req_body = b\<rparr>"

text \<open>A property that \<open>JSON.stringify\<close> writes only when its value is defined.\<close>

definition opt_field :: "string \<Rightarrow> string option \<Rightarrow> (string \<times> json) list" where
  "opt_field k v = (case v of None \<Rightarrow> [] | Some s \<Rightarrow> [(k, JStr s)])"

text \<open>
  \<open>{...md, agentType: agentName, instanceId: instanceId}\<close>, as the set of properties
  that reach the wire.
\<close>

definition with_identity :: "CommonlyClientConfig \<Rightarrow> (string \<times> json) list \<Rightarrow> (string \<times> json) list" where
  "with_identity cfg md =
     filter (\<lambda>kv. fst kv \<noteq> ''agentType'' \<and> fst kv \<noteq> ''instanceId'') md
       @ opt_field ''agentType'' (agentName cfg) @ opt_field ''instanceId'' (instanceId cfg)"

definition failed :: "string \<Rightarrow> Response \<Rightarrow> string" where
  "failed what r = ''Failed to '' @ what @ '': '' @ show_nat (status r)"

definition healthCheck :: "CommonlyClientConfig \<Rightarrow> network \<Rightarrow> bool io" where
  "healthCheck cfg net tr =
     (case fetch net (mk_request cfg GET EpHealth [] None None) tr of
        (Inl e, tr') \<Rightarrow> (Inr False, tr')
      | (Inr r, tr') \<Rightarrow> (Inr (ok r), tr'))"

definition fetchEvents :: "CommonlyClientConfig \<Rightarrow> network \<Rightarrow> json io" where
  "fetchEvents cfg net =
     bind (runtimeHeaders cfg) (\<lambda>h.
     bind (fetch net (mk_request cfg GET EpEvents
                        [(''agentName'', or_else (agentName cfg) ''openclaw''),
                         (''instanceId'', or_else (instanceId cfg) ''default'')] (Some h) None)) (\<lambda>res.
       if \<not> ok res then throw (Error (failed ''fetch events'' res))
       else bind (json_of res) (\<lambda>data. prop_or data ''events'' (JArr []))))"

definition ackEvent :: "CommonlyClientConfig \<Rightarrow> network \<Rightarrow> string \<Rightarrow> unit io" where
  "ackEvent cfg net eventId =
     bind (runtimeHeaders cfg) (\<lambda>h.
     bind (fetch net (mk_request cfg POST (EpAck eventId) [] (Some h) None)) (\<lambda>res.
       if \<not> ok res then throw (Error (failed ''ack event'' res)) else ret ()))"

definition postMessage ::
  "CommonlyClientConfig \<Rightarrow> network \<Rightarrow> string \<Rightarrow> string \<Rightarrow> (string \<times> json) list \<Rightarrow> json io" where
  "postMessage cfg net pod c metadata =
     bind (runtimeHeaders cfg) (\<lambda>h.
     bind (fetch net (mk_request cfg POST (EpPodMessages pod) [] (Some h)
                        (Some (JObj [(''content'', JStr c), (''messageType'', JStr ''text''),
                                     (''metadata'', JObj (with_identity cfg metadata))])))) (\<lambda>res.
       if \<not> ok res then throw (Error (failed ''post message'' res)) else json_of res))"

definition postThreadComment :: "CommonlyClientConfig \<Rightarrow> network \<Rightarrow> string \<Rightarrow> string \<Rightarrow> json io" where
  "postThreadComment cfg net threadId c =
     bind (runtimeHeaders cfg) (\<lambda>h.
     bind (fetch net (mk_request cfg POST (EpThreadComments threadId) [] (Some h)
                        (Some (JObj [(''content'', JStr c)])))) (\<lambda>res.
       if \<not> ok res then throw (Error (failed ''post thread comment'' res)) else json_of res))"

definition getContext :: "CommonlyClientConfig \<Rightarrow> network \<Rightarrow> string \<Rightarrow> string option \<Rightarrow> json io" where
  "getContext cfg net pod task =
     bind (runtimeHeaders cfg) (\<lambda>h.
     bind (fetch net (mk_request cfg GET (EpPodContext pod)
                        (if truthy task then [(''task'', the task)] else []) (Some h) None)) (\<lambda>res.
       if \<not> ok res then bind (emit (Warn (failed ''get context'' res))) (\<lambda>_. ret JNull)
       else json_of res))"

definition getMessages :: "CommonlyClientConfig \<Rightarrow> network \<Rightarrow> string \<Rightarrow> nat \<Rightarrow> json io" where
  "getMessages cfg net pod limit =
     bind (runtimeHeaders cfg) (\<lambda>h.
     bind (fetch net (mk_request cfg GET (EpPodMessages pod) [(''limit'', show_nat limit)]
                        (Some h) None)) (\<lambda>res.
       if \<not> ok res then bind (emit (Warn (failed ''get messages'' res))) (\<lambda>_. ret (JArr []))
       else bind (json_of res) (\<lambda>data. prop_or data ''messages'' (JArr []))))"

definition search :: "CommonlyClientConfig \<Rightarrow> network \<Rightarrow> string \<Rightarrow> string \<Rightarrow> json io" where
  "search cfg net pod query =
     bind (userHeaders cfg) (\<lambda>h.
     bind (fetch net (mk_request cfg GET (EpSearch pod) [(''q'', query)] (Some h) None)) (\<lambda>res.
       if \<not> ok res then bind (emit (Warn (failed ''search'' res))) (\<lambda>_. ret (JArr []))
       else bind (json_of res) (\<lambda>data. prop_or data ''results'' (JArr []))))"

definition readMemory :: "CommonlyClientConfig \<Rightarrow> network \<Rightarrow> string \<Rightarrow> string \<Rightarrow> json io" where
  "readMemory cfg net pod path =
     bind (userHeaders cfg) (\<lambda>h.
     bind (fetch net (mk_request cfg GET (EpMemoryFile pod path) [] (Some h) None)) (\<lambda>res.
       if \<not> ok res then bind (emit (Warn (failed ''read memory'' res))) (\<lambda>_. ret JNull)
       else json_of res))"

datatype memory_target = Daily | Memory | Skill

fun target_name :: "memory_target \<Rightarrow> string" where
  "target_name Daily = ''daily''"
| "target_name Memory = ''memory''"
| "target_name Skill = ''skill''"

record WriteOptions =
  tags :: "string list option"
  wo_source :: "(string \<times> json) list option"

definition writeMemory ::
  "CommonlyClientConfig \<Rightarrow> network \<Rightarrow> string \<Rightarrow> memory_target \<Rightarrow> string \<Rightarrow> WriteOptions \<Rightarrow> json io" where
  "writeMemory cfg net pod target c options =
     bind (userHeaders cfg) (\<lambda>h.
     bind (fetch net (mk_request cfg POST (EpMemory pod) [] (Some h)
                        (Some (JObj [(''target'', JStr (target_name target)), (''content'', JStr c),
                                     (''tags'', JArr (map JStr (case tags options of None \<Rightarrow> [] | Some t \<Rightarrow> t))),
                                     (''source'', JObj (with_identity cfg
                                        (case wo_source options of None \<Rightarrow> [] | Some m \<Rightarrow> m)))])))) (\<lambda>res.
       if \<not> ok res then throw (Error (failed ''write memory'' res)) else json_of res))"

definition getSummaries :: "CommonlyClientConfig \<Rightarrow> network \<Rightarrow> string \<Rightarrow> nat \<Rightarrow> json io" where
  "getSummaries cfg net pod hours =
     bind (userHeaders cfg) (\<lambda>h.
     bind (fetch net (mk_request cfg GET (EpSummaries pod) [(''hours'', show_nat hours)]
                        (Some h) None)) (\<lambda>res.
       if \<not> ok res then bind (emit (Warn (failed ''get summaries'' res))) (\<lambda>_. ret (JArr []))
       else bind (json_of res) (\<lambda>data. prop_or data ''summaries'' (JArr []))))"

definition reportEnsembleResponse ::
  "CommonlyClientConfig \<Rightarrow> network \<Rightarrow> string \<Rightarrow> string \<Rightarrow> string \<Rightarrow> string option \<Rightarrow> json io" where
  "reportEnsembleResponse cfg net pod ensId c msgId =
     bind (runtimeHeaders cfg) (\<lambda>h.
     bind (fetch net (mk_request cfg POST (EpEnsembleResponse pod) [] (Some h)
                        (Some (JObj ([(''ensembleId'', JStr ensId)]
                                     @ opt_field ''agentType'' (agentName cfg)
                                     @ opt_field ''instanceId'' (instanceId cfg)
                                     @ [(''content'', JStr c)]
                                     @ opt_field ''messageId'' msgId))))) (\<lambda>res.
     bind (if \<not> ok res then emit (Warn (failed ''report ensemble response'' res)) else ret ()) (\<lambda>_.
       json_of res)))"

section \<open>The push connection (websocket.ts)\<close>

datatype frame = Subscribe "string list" | Unsubscribe "string list" | Pong

record ws_status =
  st_connected :: bool
  st_reason :: "string option"
  st_error :: "string option"

text \<open>
  The connection: the socket handle (\<open>None\<close> is \<open>null\<close>, otherwise the handle's
  \<open>connected\<close> flag), the tracked pod ids, the frames given to \<open>socket.emit\<close> and
  the status notifications, both in order.
\<close>

record CommonlyWebSocket =
  socket :: "bool option"
  subscribedPodIds :: "string list"
  emitted :: "frame list"
  notified :: "ws_status list"

definition new_ws :: CommonlyWebSocket where
  "new_ws = \<lparr>socket = None, subscribedPodIds = [], emitted = [], notified = []\<rparr>"

text \<open>\<open>[...new Set(xs)]\<close>: the first occurrence of every element, in order.\<close>

definition uniq :: "'a list \<Rightarrow> 'a list" where
  "uniq xs = fold (\<lambda>x acc. if x \<in> set acc then acc else acc @ [x]) xs []"

definition emitStatus :: "ws_status \<Rightarrow> CommonlyWebSocket \<Rightarrow> CommonlyWebSocket" where
  "emitStatus st ws = ws\<lparr>notified := notified ws @ [st]\<rparr>"

definition socket_emit :: "frame \<Rightarrow> CommonlyWebSocket \<Rightarrow> CommonlyWebSocket" where
  "socket_emit f ws = (if socket ws = None then ws else ws\<lparr>emitted := emitted ws @ [f]\<rparr>)"

text \<open>The handler of the socket's \<open>connect\<close> event, fired at the first connect and at every reconnect.\<close>

definition on_connect :: "CommonlyWebSocket \<Rightarrow> CommonlyWebSocket" where
  "on_connect ws =
     (let ws1 = emitStatus \<lparr>st_connected = True, st_reason = None, st_error = None\<rparr>
                  (ws\<lparr>socket := map_option (\<lambda>_. True) (socket ws)\<rparr>)
      in if subscribedPodIds ws1 \<noteq> [] then socket_emit (Subscribe (subscribedPodIds ws1)) ws1
         else ws1)"

definition on_disconnect :: "string \<Rightarrow> CommonlyWebSocket \<Rightarrow> CommonlyWebSocket" where
  "on_disconnect reason ws =
     emitStatus \<lparr>st_connected = False, st_reason = Some reason, st_error = None\<rparr>
       (ws\<lparr>socket := map_option (\<lambda>_. False) (socket ws)\<rparr>)"

definition on_connect_error :: "string \<Rightarrow> CommonlyWebSocket \<Rightarrow> CommonlyWebSocket" where
  "on_connect_error err ws =
     emitStatus \<lparr>st_connected = False, st_reason = None, st_error = Some err\<rparr> ws"

definition on_ping :: "CommonlyWebSocket \<Rightarrow> CommonlyWebSocket" where
  "on_ping ws = socket_emit Pong ws"

text \<open>
  \<open>connect()\<close>: nothing when the handle is connected; otherwise a new handle, and the
  promise settles with whichever of \<open>connect\<close> and \<open>connect_error\<close> the socket fires
  first (the argument: \<open>None\<close> for \<open>connect\<close>, the error message otherwise).
\<close>

definition connect :: "string option \<Rightarrow> CommonlyWebSocket \<Rightarrow> (string + unit) \<times> CommonlyWebSocket" where
  "connect first ws =
     (if socket ws = Some True then (Inr (), ws)
      else (case first of
              None \<Rightarrow> (Inr (), on_connect (ws\<lparr>socket := Some False\<rparr>))
            | Some err \<Rightarrow> (Inl err, on_connect_error err (ws\<lparr>socket := Some False\<rparr>))))"

definition subscribe :: "string list \<Rightarrow> CommonlyWebSocket \<Rightarrow> CommonlyWebSocket" where
  "subscribe podIds ws =
     (if socket ws = None then ws
      else if podIds = [] then ws
      else socket_emit (Subscribe podIds)
             (ws\<lparr>subscribedPodIds := uniq (subscribedPodIds ws @ podIds)\<rparr>))"

definition unsubscribe :: "string list \<Rightarrow> CommonlyWebSocket \<Rightarrow> CommonlyWebSocket" where
  "unsubscribe podIds ws =
     (if socket ws = None then ws
      else if podIds = [] then ws
      else socket_emit (Unsubscribe podIds)
             (ws\<lparr>subscribedPodIds := filter (\<lambda>i. i \<notin> set podIds) (subscribedPodIds ws)\<rparr>))"

definition disconnect :: "CommonlyWebSocket \<Rightarrow> CommonlyWebSocket" where
  "disconnect ws = ws\<lparr>socket := None\<rparr>"

definition isConnected :: "CommonlyWebSocket \<Rightarrow> bool" where
  "isConnected ws = (socket ws = Some True)"

section \<open>The standalone channel's event transformation (index.ts)\<close>

datatype message_type = TMessage | TThreadMention | TEnsembleTurn | TSummary

datatype metadata =
    ChatMeta "string list option" "string option"
  | ThreadMeta "Thread option" "string option"
  | EnsembleMeta "string option" "EnsembleContext option"

record CommonlyInboundMessage =
  im_id :: string
  channelId :: string
  im_channelName :: string
  senderId :: string
  senderName :: string
  im_type :: message_type
  im_content :: string
  im_metadata :: metadata

text \<open>
  \<open>CommonlyChannel.transformEvent\<close>, on the destructured \<open>type\<close>, \<open>podId\<close>,
  \<open>payload\<close> and \<open>_id\<close>: the message or \<open>null\<close>, and the lines written to the
  console. The time stamp of the message is left out.
\<close>

definition transformEvent ::
  "string \<Rightarrow> string \<Rightarrow> CommonlyEventPayload \<Rightarrow> string \<Rightarrow> CommonlyInboundMessage option \<times> string list" where
  "transformEvent type pod pl eid =
     (let base = (\<lambda>t c m.
            \<lparr>im_id = eid, channelId = pod, im_channelName = ''commonly'',
             senderId = or_else (userId pl) ''unknown'', senderName = or_else (username pl) ''Unknown'',
             im_type = t, im_content = c, im_metadata = m\<rparr>)
      in if type = ''chat.mention'' then
           (Some (base TMessage (case content pl of None \<Rightarrow> [] | Some c \<Rightarrow> c)
                    (ChatMeta (mentions pl) (messageId pl))), [])
         else if type = ''thread.mention'' then
           (Some (base TThreadMention (case content pl of None \<Rightarrow> [] | Some c \<Rightarrow> c)
                    (ThreadMeta (thread pl) (messageId pl))), [])
         else if type = ''ensemble.turn'' then
           (Some (base TEnsembleTurn (or_else (map_option topic (ens_context pl)) [])
                    (EnsembleMeta (ensembleId pl) (ens_context pl))), [])
         else (None, [''[commonly] Unknown event type: '' @ type]))"

section \<open>The account handler (channel.ts)\<close>

text \<open>
  What the handler takes from the host and from its closure. The route resolver, the
  context finaliser and the directive parser are host functions and are parameters;
  \<open>configuredPrefix\<close> is \<open>createReplyPrefixContext(...).responsePrefix\<close>;
  \<open>reply_blocks\<close> are the reply payloads the host's pipeline produces for a context.

  Modelled from the spec: \<open>recordInboundSession\<close> is the host's and is not among the
  sources. A record error is logged through \<open>onRecordError\<close>, never propagated, and never
  blocks the reply dispatch; \<open>record_error\<close> is that error, if any.
\<close>

record Host =
  aborted :: bool
  account_accountId :: string
  resolveAgentRoute :: "string \<Rightarrow> string \<Rightarrow> AgentRoute"
  finalizeInboundContext :: "InboundContext \<Rightarrow> InboundContext"
  record_error :: "InboundContext \<Rightarrow> string option"
  configuredPrefix :: "string option"
  reply_blocks :: "InboundContext \<Rightarrow> ReplyPayload list"
  parseInlineDirectives :: "string \<Rightarrow> string"

definition sanitizeOutboundText :: "Host \<Rightarrow> string \<Rightarrow> string" where
  "sanitizeOutboundText host t = (if t = [] then [] else parseInlineDirectives host t)"

text \<open>\<open>String(v)\<close> on a decoded value.\<close>

fun js_String :: "json \<Rightarrow> string" where
  "js_String JNull = ''null''"
| "js_String (JBool b) = (if b then ''true'' else ''false'')"
| "js_String (JNum n) = show_int n"
| "js_String (JStr s) = s"
| "js_String (JArr xs) = join '','' (map (\<lambda>x. if x = JNull then [] else js_String x) xs)"
| "js_String (JObj kvs) = ''[object Object]''"

text \<open>\<open>posted?.id ? String(posted.id) : undefined\<close>.\<close>

definition posted_id :: "json \<Rightarrow> string option" where
  "posted_id posted =
     (case posted of
        JObj kvs \<Rightarrow>
          (case map_of kvs ''id'' of
             None \<Rightarrow> None
           | Some v \<Rightarrow> if js_truthy v then Some (js_String v) else None)
      | _ \<Rightarrow> None)"

text \<open>\<open>if (event._id) await client.ackEvent(event._id)\<close>.\<close>

definition ack_if_id :: "CommonlyClientConfig \<Rightarrow> network \<Rightarrow> CommonlyEvent \<Rightarrow> unit io" where
  "ack_if_id cfg net ev = (if truthy (ev_id ev) then ackEvent cfg net (the (ev_id ev)) else ret ())"

text \<open>
  The \<open>deliver\<close> callback for one reply block. It returns what it throws, if anything,
  and the one-shot flag \<open>ensembleResponseSent\<close>, which is set before the report is sent.
\<close>

definition deliver ::
  "Host \<Rightarrow> CommonlyClientConfig \<Rightarrow> network \<Rightarrow> CommonlyEvent \<Rightarrow> string \<Rightarrow> string option \<Rightarrow>
     ReplyPayload \<Rightarrow> bool \<Rightarrow> action list \<Rightarrow> (error + unit) \<times> bool \<times> action list" where
  "deliver host cfg net ev pod threadId pl sent tr =
     (let t = sanitizeOutboundText host (case rp_text pl of None \<Rightarrow> [] | Some x \<Rightarrow> x);
          message = join newline (filter (\<lambda>x. x \<noteq> []) [trim t, or_else (opt_trim (mediaUrl pl)) []])
      in if message = [] then (Inr (), sent, tr)
         else if truthy threadId then
           (case postThreadComment cfg net (the threadId) message tr of
              (Inl e, tr1) \<Rightarrow> (Inl e, sent, tr1)
            | (Inr _, tr1) \<Rightarrow> (Inr (), sent, tr1 @ [SetStatus OutboundSent]))
         else
           (case postMessage cfg net pod message [] tr of
              (Inl e, tr1) \<Rightarrow> (Inl e, sent, tr1)
            | (Inr posted, tr1) \<Rightarrow>
                if ev_type ev = ''ensemble.turn'' \<and> \<not> sent
                   \<and> truthy (Option.bind (payload ev) ensembleId)
                then
                  (case reportEnsembleResponse cfg net pod (the (Option.bind (payload ev) ensembleId))
                          message (posted_id posted) tr1 of
                     (Inl e, tr2) \<Rightarrow> (Inl e, True, tr2)
                   | (Inr _, tr2) \<Rightarrow> (Inr (), True, tr2 @ [SetStatus OutboundSent]))
                else (Inr (), sent, tr1 @ [SetStatus OutboundSent])))"

text \<open>
  Modelled from the spec: \<open>dispatchReplyWithBufferedBlockDispatcher\<close> is the host's and is
  not among the sources. The delivery callback is invoked once per generated reply block, one
  block after the other; a block whose delivery throws is reported to \<open>onError\<close>, which
  logs it, and neither the remaining blocks nor the final acknowledgment are abandoned.
\<close>

fun dispatch_blocks ::
  "(ReplyPayload \<Rightarrow> bool \<Rightarrow> action list \<Rightarrow> (error + unit) \<times> bool \<times> action list) \<Rightarrow>
     ReplyPayload list \<Rightarrow> bool \<Rightarrow> action list \<Rightarrow> action list" where
  "dispatch_blocks d [] sent tr = tr"
| "dispatch_blocks d (b # bs) sent tr =
     (case d b sent tr of
        (Inl e, sent', tr') \<Rightarrow> dispatch_blocks d bs sent' (tr' @ [ReplyFailed e])
      | (Inr _, sent', tr') \<Rightarrow> dispatch_blocks d bs sent' tr')"

definition inbound_context :: "Host \<Rightarrow> CommonlyEvent \<Rightarrow> string \<Rightarrow> string \<Rightarrow> AgentRoute \<Rightarrow> InboundContext" where
  "inbound_context host ev pod rawContent route =
     (let threadId = (if ev_type ev = ''thread.mention'' then map_option postId (payload_thread ev) else None);
          uid = Option.bind (payload ev) userId
      in \<lparr>Body = (if ev_type ev = ''thread.mention'' then formatThreadBody ev else rawContent),
          RawBody = rawContent,
          CommandBody = rawContent,
          From = (if truthy uid then ''commonly:'' @ the uid else ''commonly:'' @ pod),
          To = ''commonly:'' @ pod,
          SessionKey = sessionKey route,
          AccountId = route_accountId route,
          ChatType = ''group'',
          ConversationLabel = Option.bind (payload ev) username,
          GroupSubject = map_option (take 120) (payload_postContent ev),
          SenderName = Option.bind (payload ev) username,
          SenderId = uid,
          Provider = ''commonly'',
          Surface = ''commonly'',
          MessageSid = (case Option.bind (payload ev) messageId of None \<Rightarrow> ev_id ev | Some m \<Rightarrow> Some m),
          ThreadStarterBody = payload_postContent ev,
          MessageThreadId = threadId,
          WasMentioned = True,
          OriginatingChannel = ''commonly'',
          OriginatingTo = ''commonly:'' @ pod\<rparr>)"

text \<open>\<open>rawContent\<close>: the trimmed payload content, replaced by the ensemble body for \<open>ensemble.turn\<close>.\<close>

definition rawContent_of :: "CommonlyEvent \<Rightarrow> string" where
  "rawContent_of ev =
     (if ev_type ev = ''ensemble.turn'' then formatEnsembleTurnBody ev
      else or_else (opt_trim (payload_content ev)) [])"

text \<open>The callback that \<open>startAccount\<close> registers with \<open>ws.onEvent\<close>.\<close>

definition handleEvent :: "Host \<Rightarrow> CommonlyClientConfig \<Rightarrow> network \<Rightarrow> CommonlyEvent \<Rightarrow> unit io" where
  "handleEvent host cfg net ev =
     (if aborted host then ret ()
      else if \<not> truthy (podId ev) then ret ()
      else
        (let pod = the (podId ev) in
         bind (emit (SetStatus InboundSeen)) (\<lambda>_.
           if ev_type ev = ''summary.request'' then
             (let summaryText = buildSummaryMessage (Option.bind (payload ev) summary) in
              bind (if summaryText \<noteq> [] then bind (postMessage cfg net pod summaryText []) (\<lambda>_. ret ())
                    else ret ()) (\<lambda>_.
              ack_if_id cfg net ev))
           else
             (let rawContent = rawContent_of ev in
              if rawContent = [] then ack_if_id cfg net ev
              else
                (let route = resolveAgentRoute host (account_accountId host) pod;
                     threadId = (if ev_type ev = ''thread.mention''
                                 then map_option postId (payload_thread ev) else None);
                     ctxPayload = finalizeInboundContext host (inbound_context host ev pod rawContent route)
                 in bind (emit (RecordInbound ctxPayload)) (\<lambda>_.
                    bind (case record_error host ctxPayload of
                            None \<Rightarrow> ret ()
                          | Some err \<Rightarrow> emit (LogWarn (''[commonly] failed updating session meta: '' @ err))) (\<lambda>_.
                    bind (emit (Dispatch ctxPayload (configuredPrefix host))) (\<lambda>_.
                    bind (\<lambda>tr. (Inr (), dispatch_blocks (deliver host cfg net ev pod threadId)
                                          (reply_blocks host ctxPayload) False tr)) (\<lambda>_.
                    ack_if_id cfg net ev)))))))))"

section \<open>Reading a trace\<close>

text \<open>The event id a request acknowledges, and the ids acknowledged along a trace, in order.\<close>

fun ack_id :: "action \<Rightarrow> string option" where
  "ack_id (Fetch rq) = (case req_endpoint rq of EpAck i \<Rightarrow> Some i | _ \<Rightarrow> None)"
| "ack_id _ = None"

definition ack_ids :: "action list \<Rightarrow> string list" where
  "ack_ids tr = List.map_filter ack_id tr"

text \<open>The requests sent along a trace, and the contexts dispatched to the reply pipeline.\<close>

fun request_of :: "action \<Rightarrow> Request option" where
  "request_of (Fetch rq) = Some rq"
| "request_of _ = None"

definition requests :: "action list \<Rightarrow> Request list" where
  "requests tr = List.map_filter request_of tr"

fun dispatch_of :: "action \<Rightarrow> (InboundContext \<times> string option) option" where
  "dispatch_of (Dispatch c p) = Some (c, p)"
| "dispatch_of _ = None"

definition dispatches :: "action list \<Rightarrow> (InboundContext \<times> string option) list" where
  "dispatches tr = List.map_filter dispatch_of tr"

text \<open>The event types the specification lists as recognized.\<close>

definition recognized_types :: "string list" where
  "recognized_types =
     [''chat.mention'', ''thread.mention'', ''summary.request'', ''ensemble.turn'', ''pod.message'',
      ''heartbeat'']"

text \<open>The \<open>Authorization\<close> headers of the requests that a call sends, started on trace \<open>tr\<close>.\<close>

definition auth_sent :: "'a io \<Rightarrow> action list \<Rightarrow> string option list" where
  "auth_sent m tr = map req_auth (requests (drop (length tr) (snd (m tr))))"

text \<open>A stretch of trace with no acknowledgment and no dispatch in it.\<close>

definition quiet :: "action list \<Rightarrow> bool" where
  "quiet ext = (ack_ids ext = [] \<and> dispatches ext = [])"

text \<open>
  The account handler up to its closing \<open>if (event._id) await client.ackEvent(event._id)\<close>,
  for an event that passed the two guards; \<open>handle_split\<close> below shows that the handler
  is this part followed by the acknowledgment.
\<close>

definition before_ack :: "Host \<Rightarrow> CommonlyClientConfig \<Rightarrow> network \<Rightarrow> CommonlyEvent \<Rightarrow> unit io" where
  "before_ack host cfg net ev =
     (let pod = the (podId ev) in
      bind (emit (SetStatus InboundSeen)) (\<lambda>_.
        if ev_type ev = ''summary.request'' then
          (let summaryText = buildSummaryMessage (Option.bind (payload ev) summary) in
           if summaryText \<noteq> [] then bind (postMessage cfg net pod summaryText []) (\<lambda>_. ret ())
           else ret ())
        else
          (let rawContent = rawContent_of ev in
           if rawContent = [] then ret ()
           else
             (let route = resolveAgentRoute host (account_accountId host) pod;
                  threadId = (if ev_type ev = ''thread.mention''
                              then map_option postId (payload_thread ev) else None);
                  ctxPayload = finalizeInboundContext host (inbound_context host ev pod rawContent route)
              in bind (emit (RecordInbound ctxPayload)) (\<lambda>_.
                 bind (case record_error host ctxPayload of
                         None \<Rightarrow> ret ()
                       | Some err \<Rightarrow> emit (LogWarn (''[commonly] failed updating session meta: '' @ err))) (\<lambda>_.
                 bind (emit (Dispatch ctxPayload (configuredPrefix host))) (\<lambda>_.
                 (\<lambda>tr. (Inr (), dispatch_blocks (deliver host cfg net ev pod threadId)
                                       (reply_blocks host ctxPayload) False tr)))))))))"

text \<open>The context the handler hands to the reply pipeline for an event it dispatches.\<close>

definition dispatched_context :: "Host \<Rightarrow> CommonlyEvent \<Rightarrow> InboundContext" where
  "dispatched_context host ev =
     finalizeInboundContext host
       (inbound_context host ev (the (podId ev)) (rawContent_of ev)
          (resolveAgentRoute host (account_accountId host) (the (podId ev))))"

text \<open>The acknowledgment request for an event id.\<close>

definition ack_request :: "CommonlyClientConfig \<Rightarrow> string \<Rightarrow> Request" where
  "ack_request cfg i =
     mk_request cfg POST (EpAck i) [] (Some (''Bearer '' @ the (opt_trim (runtimeToken cfg)))) None"

text \<open>
  Whether the summary post of a \<open>summary.request\<close> event, made right after the status
  update, lets the handler go on: there is no summary text to post, or \<open>postMessage\<close>
  returns.
\<close>

definition summary_post_ok ::
  "CommonlyClientConfig \<Rightarrow> network \<Rightarrow> CommonlyEvent \<Rightarrow> action list \<Rightarrow> bool" where
  "summary_post_ok cfg net ev tr =
     (let summaryText = buildSummaryMessage (Option.bind (payload ev) summary)
      in summaryText = []
         \<or> (case fst (postMessage cfg net (the (podId ev)) summaryText []
                        (tr @ [SetStatus InboundSeen])) of
               Inl e \<Rightarrow> False
             | Inr posted \<Rightarrow> True))"

section \<open>Sample inputs\<close>

definition ok_response :: Response where
  "ok_response = \<lparr>ok = True, status = 200, body = Some (JObj [(''id'', JStr ''msg-123'')])\<rparr>"

definition ok_net :: network where
  "ok_net = (\<lambda>_ _. Some ok_response)"

definition failed_response :: Response where
  "failed_response = \<lparr>ok = False, status = 500, body = Some (JObj [(''error'', JStr ''boom'')])\<rparr>"

definition test_cfg :: CommonlyClientConfig where
  "test_cfg = \<lparr>baseUrl = ''http://localhost:5000'', runtimeToken = Some ''test-token'',
               userToken = None, agentName = Some ''openclaw'', instanceId = Some ''cuz''\<rparr>"

definition user_only_cfg :: CommonlyClientConfig where
  "user_only_cfg = \<lparr>baseUrl = ''http://localhost:5000'', runtimeToken = None,
                    userToken = Some ''ut'', agentName = None, instanceId = None\<rparr>"

definition both_cfg :: CommonlyClientConfig where
  "both_cfg = \<lparr>baseUrl = ''http://localhost:5000'', runtimeToken = Some ''rt'',
               userToken = Some ''ut'', agentName = None, instanceId = None\<rparr>"

definition no_token_cfg :: CommonlyClientConfig where
  "no_token_cfg = \<lparr>baseUrl = ''http://localhost:5000'', runtimeToken = None,
                   userToken = None, agentName = None, instanceId = None\<rparr>"

definition test_route :: AgentRoute where
  "test_route = \<lparr>sessionKey = ''test-session'', route_accountId = ''test-account'',
                 agentId = ''cuz'', mainSessionKey = ''test-main-session''\<rparr>"

definition test_host :: Host where
  "test_host =
     \<lparr>aborted = False, account_accountId = ''test-account'',
      resolveAgentRoute = (\<lambda>_ _. test_route), finalizeInboundContext = (\<lambda>c. c),
      record_error = (\<lambda>_. None), configuredPrefix = Some ''My response:'',
      reply_blocks = (\<lambda>_. [\<lparr>rp_text = Some ''Hello'', mediaUrl = None\<rparr>,
                            \<lparr>rp_text = None, mediaUrl = None\<rparr>,
                            \<lparr>rp_text = Some ''Bye'', mediaUrl = Some ''http://img''\<rparr>]),
      parseInlineDirectives = (\<lambda>t. t)\<rparr>"

definition empty_payload :: CommonlyEventPayload where
  "empty_payload =
     \<lparr>messageId = None, content = None, userId = None, username = None, mentions = None,
      source = None, thread = None, summary = None, ensembleId = None, participants = None,
      ens_context = None\<rparr>"

definition heartbeat_event :: CommonlyEvent where
  "heartbeat_event =
     \<lparr>ev_id = Some ''evt-heartbeat'', ev_type = ''heartbeat'', podId = Some ''pod-1'',
      payload = Some empty_payload\<rparr>"

definition ensemble_event :: CommonlyEvent where
  "ensemble_event =
     \<lparr>ev_id = Some ''event-123'', ev_type = ''ensemble.turn'', podId = Some ''pod-abc'',
      payload = Some (empty_payload
        \<lparr>ensembleId := Some ''ensemble-xyz'',
         participants := Some
           [\<lparr>p_agentType = ''openclaw'', p_instanceId = Some ''cuz'', displayName = Some ''Cuz'',
             role = Some ''starter''\<rparr>,
            \<lparr>p_agentType = ''openclaw'', p_instanceId = Some ''tarik'', displayName = Some ''Tarik'',
             role = Some ''responder''\<rparr>],
         ens_context := Some
           \<lparr>topic = ''Test Discussion'', turnNumber = 0, roundNumber = 0, isStarter = True,
            recentHistory = [], keyPoints = []\<rparr>\<rparr>)\<rparr>"

definition unknown_event :: CommonlyEvent where
  "unknown_event =
     \<lparr>ev_id = Some ''evt-9'', ev_type = ''pod.archived'', podId = Some ''pod-1'',
      payload = Some (empty_payload\<lparr>content := Some ''hello there''\<rparr>)\<rparr>"

definition thread_event :: "string \<Rightarrow> string option \<Rightarrow> CommonlyEvent" where
  "thread_event post comment =
     \<lparr>ev_id = Some ''evt-t'', ev_type = ''thread.mention'', podId = Some ''pod-1'',
      payload = Some (empty_payload
        \<lparr>content := comment,
         thread := Some \<lparr>postId = ''post-1'', postContent = Some post, commentId = None,
                         commentText = None\<rparr>\<rparr>)\<rparr>"

definition podless_event :: CommonlyEvent where
  "podless_event =
     \<lparr>ev_id = Some ''evt-7'', ev_type = ''chat.mention'', podId = None,
      payload = Some (empty_payload\<lparr>content := Some ''hello''\<rparr>)\<rparr>"

definition failing_net :: network where
  "failing_net = (\<lambda>_ _. Some failed_response)"

definition summary_event :: CommonlyEvent where
  "summary_event =
     \<lparr>ev_id = Some ''evt-summary'', ev_type = ''summary.request'', podId = Some ''pod-1'',
      payload = Some (empty_payload
        \<lparr>summary := Some
           \<lparr>sum_content = Some ''Digest of the hour'', sum_title = None, channelName = None,
            channelUrl = None, messageCount = None, timeRange = None, summaryType = None\<rparr>\<rparr>)\<rparr>"

definition connected_ws :: CommonlyWebSocket where
  "connected_ws = snd (connect None new_ws)"

section \<open>Auxiliary facts\<close>

lemmas io_defs = bind_def ret_def throw_def emit_def lift_def fetch_def json_of_def

lemma uniq_fold_set:
  "set (fold (\<lambda>x acc. if x \<in> set acc then acc else acc @ [x]) xs acc) = set acc \<union> set xs"
  by (induction xs arbitrary: acc) auto

lemma set_uniq: "set (uniq xs) = set xs"
  by (simp add: uniq_def uniq_fold_set)

lemma uniq_fold_distinct:
  "distinct acc \<Longrightarrow> distinct (fold (\<lambda>x acc. if x \<in> set acc then acc else acc @ [x]) xs acc)"
  by (induction xs arbitrary: acc) auto

lemma distinct_uniq: "distinct (uniq xs)"
  by (simp add: uniq_def uniq_fold_distinct)

lemma ack_ids_append [simp]: "ack_ids (xs @ ys) = ack_ids xs @ ack_ids ys"
  by (simp add: ack_ids_def map_filter_def)

lemma ack_ids_Nil [simp]: "ack_ids [] = []"
  by (simp add: ack_ids_def map_filter_def)

lemma ack_ids_Cons [simp]:
  "ack_ids (a # xs) = (case ack_id a of None \<Rightarrow> ack_ids xs | Some i \<Rightarrow> i # ack_ids xs)"
  by (simp add: ack_ids_def map_filter_def split: option.splits)

lemma requests_append [simp]: "requests (xs @ ys) = requests xs @ requests ys"
  by (simp add: requests_def map_filter_def)

lemma requests_Nil [simp]: "requests [] = []"
  by (simp add: requests_def map_filter_def)

lemma requests_Cons [simp]:
  "requests (a # xs) = (case request_of a of None \<Rightarrow> requests xs | Some r \<Rightarrow> r # requests xs)"
  by (simp add: requests_def map_filter_def split: option.splits)

lemma dispatches_append [simp]: "dispatches (xs @ ys) = dispatches xs @ dispatches ys"
  by (simp add: dispatches_def map_filter_def)

lemma dispatches_Nil [simp]: "dispatches [] = []"
  by (simp add: dispatches_def map_filter_def)

lemma dispatches_Cons [simp]:
  "dispatches (a # xs) = (case dispatch_of a of None \<Rightarrow> dispatches xs | Some r \<Rightarrow> r # dispatches xs)"
  by (simp add: dispatches_def map_filter_def split: option.splits)

lemma connected_ws_simps:
  "socket connected_ws = Some True" "subscribedPodIds connected_ws = []" "emitted connected_ws = []"
  by (simp_all add: connected_ws_def connect_def new_ws_def on_connect_def emitStatus_def Let_def)

section \<open>The subscription set\<close>

text \<open>
  C8. On a connection that holds a socket handle, \<open>subscribe([a,b])\<close> followed by
  \<open>subscribe([b,c])\<close>, starting from an empty tracked set, leaves the tracked set exactly
  \<open>{a,b,c}\<close> (without duplicates), and the two wire calls carry \<open>[a,b]\<close> and \<open>[b,c]\<close>:
  the second one carries only its own argument. \<open>unsubscribe([b])\<close> on the tracked set
  \<open>{a,b,c}\<close> leaves \<open>{a,c}\<close> and its wire call carries only \<open>[b]\<close>. A call with an
  empty list changes nothing and emits nothing.
\<close>

theorem tracked_set_calls:
  "(socket ws \<noteq> None \<and> subscribedPodIds ws = [] \<longrightarrow>
      set (subscribedPodIds (subscribe [b, c] (subscribe [a, b] ws))) = {a, b, c}
      \<and> distinct (subscribedPodIds (subscribe [b, c] (subscribe [a, b] ws)))
      \<and> emitted (subscribe [b, c] (subscribe [a, b] ws))
          = emitted ws @ [Subscribe [a, b], Subscribe [b, c]])
   \<and> (socket ws \<noteq> None \<and> set (subscribedPodIds ws) = {a, b, c} \<and> b \<noteq> a \<and> b \<noteq> c \<longrightarrow>
      set (subscribedPodIds (unsubscribe [b] ws)) = {a, c}
      \<and> emitted (unsubscribe [b] ws) = emitted ws @ [Unsubscribe [b]])
   \<and> subscribe [] ws = ws \<and> unsubscribe [] ws = ws"
  by (auto simp: subscribe_def unsubscribe_def socket_emit_def set_uniq distinct_uniq)

theorem tracked_set_calls_witness:
  "socket connected_ws \<noteq> None \<and> subscribedPodIds connected_ws = []
   \<and> subscribedPodIds (subscribe [''pod-2'', ''pod-3''] (subscribe [''pod-1'', ''pod-2''] connected_ws))
       = [''pod-1'', ''pod-2'', ''pod-3'']
   \<and> emitted (subscribe [''pod-2'', ''pod-3''] (subscribe [''pod-1'', ''pod-2''] connected_ws))
       = [Subscribe [''pod-1'', ''pod-2''], Subscribe [''pod-2'', ''pod-3'']]
   \<and> set (subscribedPodIds (subscribe [''pod-1'', ''pod-2'', ''pod-3''] connected_ws))
       = {''pod-1'', ''pod-2'', ''pod-3''}
   \<and> set (subscribedPodIds
            (unsubscribe [''pod-2''] (subscribe [''pod-1'', ''pod-2'', ''pod-3''] connected_ws)))
       = {''pod-1'', ''pod-3''}
   \<and> emitted (unsubscribe [''pod-2''] (subscribe [''pod-1'', ''pod-2'', ''pod-3''] connected_ws))
       = [Subscribe [''pod-1'', ''pod-2'', ''pod-3''], Unsubscribe [''pod-2'']]"
  using tracked_set_calls [where ws = connected_ws and a = "''pod-1''" and b = "''pod-2''"
      and c = "''pod-3''"]
    tracked_set_calls [where ws = "subscribe [''pod-1'', ''pod-2'', ''pod-3''] connected_ws"
      and a = "''pod-1''" and b = "''pod-2''" and c = "''pod-3''"]
  by (simp add: connected_ws_simps subscribe_def unsubscribe_def socket_emit_def uniq_def)

section \<open>Events without a pod id\<close>

text \<open>
  C10. For an inbound event whose \<open>podId\<close> is missing or empty the account handler does
  nothing at all: it returns normally and leaves the trace as it was, so there is no status
  update, no session record, no dispatch and no acknowledgment, whether or not the event
  carries an id.
\<close>

theorem podless_event_is_noop:
  "\<not> truthy (podId ev) \<Longrightarrow> handleEvent host cfg net ev tr = (Inr (), tr)"
  by (simp add: handleEvent_def ret_def)

theorem podless_event_is_noop_witness:
  "\<not> truthy (podId podless_event) \<and> truthy (ev_id podless_event)
   \<and> handleEvent test_host test_cfg ok_net podless_event [] = (Inr (), [])"
  using podless_event_is_noop [of podless_event test_host test_cfg ok_net "[]"]
  by (simp add: podless_event_def truthy_def)

section \<open>Facts about the client\<close>

lemma rt_absent:
  "\<not> truthy (opt_trim (runtimeToken cfg)) \<Longrightarrow>
     runtimeHeaders cfg tr = (Inl (Error ''Commonly runtime token is required''), tr)"
  by (simp add: runtimeHeaders_def throw_def)

lemma rt_present:
  "truthy (opt_trim (runtimeToken cfg)) \<Longrightarrow>
     runtimeHeaders cfg tr = (Inr (''Bearer '' @ the (opt_trim (runtimeToken cfg))), tr)"
  by (simp add: runtimeHeaders_def ret_def)

lemma ut_present:
  "truthy (opt_trim (userToken cfg)) \<Longrightarrow>
     userHeaders cfg tr = (Inr (''Bearer '' @ the (opt_trim (userToken cfg))), tr)"
  by (simp add: userHeaders_def ret_def)

lemma ut_fallback:
  "\<not> truthy (opt_trim (userToken cfg)) \<Longrightarrow> truthy (opt_trim (runtimeToken cfg)) \<Longrightarrow>
     userHeaders cfg tr = (Inr (''Bearer '' @ the (opt_trim (runtimeToken cfg))), tr)"
  by (simp add: userHeaders_def ret_def)

lemma ut_absent:
  "\<not> truthy (opt_trim (userToken cfg)) \<Longrightarrow> \<not> truthy (opt_trim (runtimeToken cfg)) \<Longrightarrow>
     userHeaders cfg tr = (Inl (Error ''Commonly user token is required''), tr)"
  by (simp add: userHeaders_def throw_def)


lemma runtime_scoped_raise:
  assumes "\<not> truthy (opt_trim (runtimeToken cfg))"
  shows "fetchEvents cfg net tr = (Inl (Error ''Commonly runtime token is required''), tr)"
    and "ackEvent cfg net eventId tr = (Inl (Error ''Commonly runtime token is required''), tr)"
    and "postMessage cfg net pod c md tr = (Inl (Error ''Commonly runtime token is required''), tr)"
    and "postThreadComment cfg net threadId c tr
           = (Inl (Error ''Commonly runtime token is required''), tr)"
    and "getContext cfg net pod task tr = (Inl (Error ''Commonly runtime token is required''), tr)"
    and "getMessages cfg net pod limit tr = (Inl (Error ''Commonly runtime token is required''), tr)"
    and "reportEnsembleResponse cfg net pod ens c mid tr
           = (Inl (Error ''Commonly runtime token is required''), tr)"
  using assms
  by (simp_all add: fetchEvents_def ackEvent_def postMessage_def postThreadComment_def getContext_def
      getMessages_def reportEnsembleResponse_def bind_def rt_absent)

lemma user_scoped_raise:
  assumes "userHeaders cfg tr = (Inl e, tr)"
  shows "search cfg net pod q tr = (Inl e, tr)"
    and "readMemory cfg net pod path tr = (Inl e, tr)"
    and "writeMemory cfg net pod target c options tr = (Inl e, tr)"
    and "getSummaries cfg net pod hours tr = (Inl e, tr)"
  using assms
  by (simp_all add: search_def readMemory_def writeMemory_def getSummaries_def bind_def)

lemma user_scoped_auth:
  assumes "userHeaders cfg tr = (Inr h, tr)"
  shows "auth_sent (search cfg net pod q) tr = [Some h]"
    and "auth_sent (readMemory cfg net pod path) tr = [Some h]"
    and "auth_sent (writeMemory cfg net pod target c options) tr = [Some h]"
    and "auth_sent (getSummaries cfg net pod hours) tr = [Some h]"
  using assms
  by (auto simp: auth_sent_def search_def readMemory_def writeMemory_def getSummaries_def io_defs
      prop_or_def mk_request_def split: option.splits sum.splits)




lemmas string_defs = trim_def is_ws_def opt_trim_def or_else_def truthy_def newline_def

lemmas cfg_defs = test_cfg_def user_only_cfg_def both_cfg_def no_token_cfg_def

lemma show_nat_500: "show_nat 500 = ''500''"
  by (simp add: show_nat.simps digit_char_def)

section \<open>Credential classes\<close>

text \<open>
  C4, as stated, fails: \<open>getContext\<close> is runtime-scoped in the code. With a user token and
  no runtime token it raises the configuration error, although the claim lets a user-scoped
  method raise only when both tokens are missing.
\<close>

theorem context_is_runtime_scoped_counterexample:
  "truthy (opt_trim (userToken user_only_cfg))
   \<and> getContext user_only_cfg ok_net ''pod-1'' None []
       = (Inl (Error ''Commonly runtime token is required''), [])"
  by (simp add: user_only_cfg_def getContext_def runtimeHeaders_def bind_def throw_def string_defs)

text \<open>
  C4, amended. The runtime-scoped methods are \<open>fetchEvents\<close>, \<open>ackEvent\<close>,
  \<open>postMessage\<close>, \<open>postThreadComment\<close>, \<open>getContext\<close>, \<open>getMessages\<close> and
  \<open>reportEnsembleResponse\<close>: without a runtime token each raises the configuration error
  and sends nothing (the trace is unchanged). The user-scoped methods are \<open>search\<close>,
  \<open>readMemory\<close>, \<open>writeMemory\<close> and \<open>getSummaries\<close>: each sends exactly one request,
  authorised by the user token when there is one and by the runtime token otherwise, and
  raises the configuration error, sending nothing, only when both are missing. A token that
  is empty after trimming counts as missing.
\<close>

theorem credential_classes:
  "(\<not> truthy (opt_trim (runtimeToken cfg)) \<longrightarrow>
      fetchEvents cfg net tr = (Inl (Error ''Commonly runtime token is required''), tr)
      \<and> ackEvent cfg net eventId tr = (Inl (Error ''Commonly runtime token is required''), tr)
      \<and> postMessage cfg net pod c md tr = (Inl (Error ''Commonly runtime token is required''), tr)
      \<and> postThreadComment cfg net threadId c tr
          = (Inl (Error ''Commonly runtime token is required''), tr)
      \<and> getContext cfg net pod task tr = (Inl (Error ''Commonly runtime token is required''), tr)
      \<and> getMessages cfg net pod limit tr = (Inl (Error ''Commonly runtime token is required''), tr)
      \<and> reportEnsembleResponse cfg net pod ens c mid tr
          = (Inl (Error ''Commonly runtime token is required''), tr))
   \<and> (truthy (opt_trim (userToken cfg)) \<longrightarrow>
      auth_sent (search cfg net pod q) tr = [Some (''Bearer '' @ the (opt_trim (userToken cfg)))]
      \<and> auth_sent (readMemory cfg net pod path) tr
          = [Some (''Bearer '' @ the (opt_trim (userToken cfg)))]
      \<and> auth_sent (writeMemory cfg net pod target c options) tr
          = [Some (''Bearer '' @ the (opt_trim (userToken cfg)))]
      \<and> auth_sent (getSummaries cfg net pod hours) tr
          = [Some (''Bearer '' @ the (opt_trim (userToken cfg)))])
   \<and> (\<not> truthy (opt_trim (userToken cfg)) \<and> truthy (opt_trim (runtimeToken cfg)) \<longrightarrow>
      auth_sent (search cfg net pod q) tr = [Some (''Bearer '' @ the (opt_trim (runtimeToken cfg)))]
      \<and> auth_sent (readMemory cfg net pod path) tr
          = [Some (''Bearer '' @ the (opt_trim (runtimeToken cfg)))]
      \<and> auth_sent (writeMemory cfg net pod target c options) tr
          = [Some (''Bearer '' @ the (opt_trim (runtimeToken cfg)))]
      \<and> auth_sent (getSummaries cfg net pod hours) tr
          = [Some (''Bearer '' @ the (opt_trim (runtimeToken cfg)))])
   \<and> (\<not> truthy (opt_trim (userToken cfg)) \<and> \<not> truthy (opt_trim (runtimeToken cfg)) \<longrightarrow>
      search cfg net pod q tr = (Inl (Error ''Commonly user token is required''), tr)
      \<and> readMemory cfg net pod path tr = (Inl (Error ''Commonly user token is required''), tr)
      \<and> writeMemory cfg net pod target c options tr
          = (Inl (Error ''Commonly user token is required''), tr)
      \<and> getSummaries cfg net pod hours tr = (Inl (Error ''Commonly user token is required''), tr))"
proof (intro conjI impI)
  assume a: "\<not> truthy (opt_trim (runtimeToken cfg))"
  show "fetchEvents cfg net tr = (Inl (Error ''Commonly runtime token is required''), tr)"
    "ackEvent cfg net eventId tr = (Inl (Error ''Commonly runtime token is required''), tr)"
    "postMessage cfg net pod c md tr = (Inl (Error ''Commonly runtime token is required''), tr)"
    "postThreadComment cfg net threadId c tr = (Inl (Error ''Commonly runtime token is required''), tr)"
    "getContext cfg net pod task tr = (Inl (Error ''Commonly runtime token is required''), tr)"
    "getMessages cfg net pod limit tr = (Inl (Error ''Commonly runtime token is required''), tr)"
    "reportEnsembleResponse cfg net pod ens c mid tr
       = (Inl (Error ''Commonly runtime token is required''), tr)"
    by (rule runtime_scoped_raise [OF a])+
next
  assume a: "truthy (opt_trim (userToken cfg))"
  show "auth_sent (search cfg net pod q) tr = [Some (''Bearer '' @ the (opt_trim (userToken cfg)))]"
    "auth_sent (readMemory cfg net pod path) tr = [Some (''Bearer '' @ the (opt_trim (userToken cfg)))]"
    "auth_sent (writeMemory cfg net pod target c options) tr
       = [Some (''Bearer '' @ the (opt_trim (userToken cfg)))]"
    "auth_sent (getSummaries cfg net pod hours) tr = [Some (''Bearer '' @ the (opt_trim (userToken cfg)))]"
    by (rule user_scoped_auth [OF ut_present [OF a]])+
next
  assume a: "\<not> truthy (opt_trim (userToken cfg)) \<and> truthy (opt_trim (runtimeToken cfg))"
  then have h: "userHeaders cfg tr = (Inr (''Bearer '' @ the (opt_trim (runtimeToken cfg))), tr)"
    by (simp add: ut_fallback)
  show "auth_sent (search cfg net pod q) tr = [Some (''Bearer '' @ the (opt_trim (runtimeToken cfg)))]"
    "auth_sent (readMemory cfg net pod path) tr = [Some (''Bearer '' @ the (opt_trim (runtimeToken cfg)))]"
    "auth_sent (writeMemory cfg net pod target c options) tr
       = [Some (''Bearer '' @ the (opt_trim (runtimeToken cfg)))]"
    "auth_sent (getSummaries cfg net pod hours) tr
       = [Some (''Bearer '' @ the (opt_trim (runtimeToken cfg)))]"
    by (rule user_scoped_auth [OF h])+
next
  assume a: "\<not> truthy (opt_trim (userToken cfg)) \<and> \<not> truthy (opt_trim (runtimeToken cfg))"
  then have h: "userHeaders cfg tr = (Inl (Error ''Commonly user token is required''), tr)"
    by (simp add: ut_absent)
  show "search cfg net pod q tr = (Inl (Error ''Commonly user token is required''), tr)"
    "readMemory cfg net pod path tr = (Inl (Error ''Commonly user token is required''), tr)"
    "writeMemory cfg net pod target c options tr = (Inl (Error ''Commonly user token is required''), tr)"
    "getSummaries cfg net pod hours tr = (Inl (Error ''Commonly user token is required''), tr)"
    by (rule user_scoped_raise [OF h])+
qed

lemma sample_tokens:
  "\<not> truthy (opt_trim (runtimeToken no_token_cfg))" "\<not> truthy (opt_trim (userToken no_token_cfg))"
  "truthy (opt_trim (userToken both_cfg))" "truthy (opt_trim (runtimeToken both_cfg))"
  "\<not> truthy (opt_trim (userToken test_cfg))" "truthy (opt_trim (runtimeToken test_cfg))"
  "the (opt_trim (userToken both_cfg)) = ''ut''" "the (opt_trim (runtimeToken test_cfg)) = ''test-token''"
  by (simp_all add: cfg_defs string_defs)

theorem credential_classes_witness:
  "\<not> truthy (opt_trim (runtimeToken no_token_cfg)) \<and> \<not> truthy (opt_trim (userToken no_token_cfg))
   \<and> postMessage no_token_cfg ok_net ''pod-123'' ''hello'' [] []
       = (Inl (Error ''Commonly runtime token is required''), [])
   \<and> getContext no_token_cfg ok_net ''pod-123'' None []
       = (Inl (Error ''Commonly runtime token is required''), [])
   \<and> search no_token_cfg ok_net ''pod-123'' ''query'' []
       = (Inl (Error ''Commonly user token is required''), [])
   \<and> truthy (opt_trim (userToken both_cfg))
   \<and> auth_sent (search both_cfg ok_net ''pod-123'' ''query'') [] = [Some ''Bearer ut'']
   \<and> \<not> truthy (opt_trim (userToken test_cfg)) \<and> truthy (opt_trim (runtimeToken test_cfg))
   \<and> auth_sent (search test_cfg ok_net ''pod-123'' ''query'') [] = [Some ''Bearer test-token'']"
  using credential_classes [where cfg = no_token_cfg and net = ok_net and tr = "[]"
      and pod = "''pod-123''" and c = "''hello''" and md = "[]" and task = None and q = "''query''"]
    credential_classes [where cfg = both_cfg and net = ok_net and tr = "[]"
      and pod = "''pod-123''" and q = "''query''"]
    credential_classes [where cfg = test_cfg and net = ok_net and tr = "[]"
      and pod = "''pod-123''" and q = "''query''"]
  by (simp add: sample_tokens)

section \<open>Failed responses\<close>





section \<open>Facts about the account handler\<close>

lemma quiet_simps [simp]:
  "quiet []" "quiet (xs @ ys) = (quiet xs \<and> quiet ys)"
  "quiet (Warn w # xs) = quiet xs" "quiet (LogWarn w # xs) = quiet xs"
  "quiet (ReplyFailed e # xs) = quiet xs" "quiet (SetStatus p # xs) = quiet xs"
  "quiet (RecordInbound c # xs) = quiet xs"
  by (auto simp: quiet_def)

lemma quiet_fetch [simp]:
  "quiet (Fetch rq # xs) = ((case req_endpoint rq of EpAck i \<Rightarrow> False | _ \<Rightarrow> True) \<and> quiet xs)"
  by (auto simp: quiet_def split: endpoint.splits)

lemma postMessage_ext: "\<exists>ext. snd (postMessage cfg net pod m md tr) = tr @ ext \<and> quiet ext"
  by (auto simp: postMessage_def runtimeHeaders_def mk_request_def Let_def io_defs
      split: option.splits sum.splits)

lemma postThreadComment_ext: "\<exists>ext. snd (postThreadComment cfg net th m tr) = tr @ ext \<and> quiet ext"
  by (auto simp: postThreadComment_def runtimeHeaders_def mk_request_def Let_def io_defs
      split: option.splits sum.splits)

lemma reportEnsembleResponse_ext:
  "\<exists>ext. snd (reportEnsembleResponse cfg net pod e m i tr) = tr @ ext \<and> quiet ext"
  by (auto simp: reportEnsembleResponse_def runtimeHeaders_def mk_request_def Let_def io_defs
      split: option.splits sum.splits)

text \<open>Delivering a block only extends the trace, and never by an acknowledgment or a dispatch.\<close>

lemma deliver_ext:
  "\<exists>ext. snd (snd (deliver host cfg net ev pod th pl sent tr)) = tr @ ext \<and> quiet ext"
proof -
  define msg where "msg = join newline (filter (\<lambda>x. x \<noteq> [])
     [trim (sanitizeOutboundText host (case rp_text pl of None \<Rightarrow> [] | Some x \<Rightarrow> x)),
      or_else (opt_trim (mediaUrl pl)) []])"
  obtain r1 t1 where p1: "postThreadComment cfg net (the th) msg tr = (r1, t1)" by force
  obtain e1 where e1: "t1 = tr @ e1" "quiet e1"
    using postThreadComment_ext [of cfg net "the th" msg tr] p1 by auto
  obtain r2 t2 where p2: "postMessage cfg net pod msg [] tr = (r2, t2)" by force
  obtain e2 where e2: "t2 = tr @ e2" "quiet e2"
    using postMessage_ext [of cfg net pod msg "[]" tr] p2 by auto
  have e3: "\<exists>e3. snd (reportEnsembleResponse cfg net pod eid msg mid t2) = tr @ e3 \<and> quiet e3"
    for eid mid
  proof -
    obtain e where "snd (reportEnsembleResponse cfg net pod eid msg mid t2) = t2 @ e" "quiet e"
      using reportEnsembleResponse_ext by blast
    then show ?thesis using e2 by simp
  qed
  have d: "deliver host cfg net ev pod th pl sent tr =
     (if msg = [] then (Inr (), sent, tr)
      else if truthy th then
        (case (r1, t1) of
           (Inl e, tr1) \<Rightarrow> (Inl e, sent, tr1)
         | (Inr _, tr1) \<Rightarrow> (Inr (), sent, tr1 @ [SetStatus OutboundSent]))
      else
        (case (r2, t2) of
           (Inl e, tr1) \<Rightarrow> (Inl e, sent, tr1)
         | (Inr posted, tr1) \<Rightarrow>
             if ev_type ev = ''ensemble.turn'' \<and> \<not> sent
                \<and> truthy (Option.bind (payload ev) ensembleId)
             then
               (case reportEnsembleResponse cfg net pod (the (Option.bind (payload ev) ensembleId))
                       msg (posted_id posted) tr1 of
                  (Inl e, tr2) \<Rightarrow> (Inl e, True, tr2)
                | (Inr _, tr2) \<Rightarrow> (Inr (), True, tr2 @ [SetStatus OutboundSent]))
             else (Inr (), sent, tr1 @ [SetStatus OutboundSent])))"
    unfolding deliver_def Let_def msg_def [symmetric] p1 p2 by (rule refl)
  show ?thesis
  proof (cases "msg = []")
    case True
    then show ?thesis using d by simp
  next
    case False
    show ?thesis
    proof (cases "truthy th")
      case True
      then show ?thesis using d False e1 by (cases r1) auto
    next
      case nt: False
      show ?thesis
      proof (cases r2)
        case (Inl e)
        then show ?thesis using d False nt e2 by simp
      next
        case (Inr posted)
        show ?thesis
        proof (cases "ev_type ev = ''ensemble.turn'' \<and> \<not> sent
                        \<and> truthy (Option.bind (payload ev) ensembleId)")
          case True
          obtain r3 t3 where p3:
            "reportEnsembleResponse cfg net pod (the (Option.bind (payload ev) ensembleId))
               msg (posted_id posted) t2 = (r3, t3)" by force
          obtain x where x: "t3 = tr @ x" "quiet x"
            using e3 [of "the (Option.bind (payload ev) ensembleId)" "posted_id posted"] p3 by auto
          have "deliver host cfg net ev pod th pl sent tr =
             (case r3 of Inl e \<Rightarrow> (Inl e, True, t3)
              | Inr _ \<Rightarrow> (Inr (), True, t3 @ [SetStatus OutboundSent]))"
            using d False nt Inr True p3 by (simp split: sum.splits)
          then show ?thesis using x by (cases r3) auto
        next
          case f: False
          have "deliver host cfg net ev pod th pl sent tr = (Inr (), sent, t2 @ [SetStatus OutboundSent])"
            using d False nt Inr f by auto
          then show ?thesis using e2 by simp
        qed
      qed
    qed
  qed
qed

text \<open>The same for any number of blocks, by induction on the blocks.\<close>

lemma dispatch_blocks_ext:
  assumes "\<And>b s t. \<exists>ext. snd (snd (d b s t)) = t @ ext \<and> quiet ext"
  shows "\<exists>ext. dispatch_blocks d bs sent tr = tr @ ext \<and> quiet ext"
proof (induction bs arbitrary: sent tr)
  case Nil
  then show ?case by simp
next
  case (Cons b bs)
  obtain r s' t' where d: "d b sent tr = (r, s', t')" by (cases "d b sent tr") auto
  obtain e where e: "t' = tr @ e" "quiet e" using assms [of b sent tr] d by auto
  show ?case
  proof (cases r)
    case (Inl err)
    obtain e2 where
      "dispatch_blocks d bs s' (t' @ [ReplyFailed err]) = (t' @ [ReplyFailed err]) @ e2" "quiet e2"
      using Cons.IH by blast
    then show ?thesis using d e Inl by simp
  next
    case (Inr u)
    obtain e2 where "dispatch_blocks d bs s' t' = t' @ e2" "quiet e2"
      using Cons.IH by blast
    then show ?thesis using d e Inr by simp
  qed
qed

lemma ackEvent_trace:
  "snd (ackEvent cfg net i tr) = tr \<and> fst (ackEvent cfg net i tr) \<noteq> Inr ()
   \<or> snd (ackEvent cfg net i tr) = tr @ [Fetch (ack_request cfg i)]"
  by (auto simp: ackEvent_def ack_request_def runtimeHeaders_def Let_def io_defs
      split: option.splits sum.splits if_splits)

lemma bind_assoc: "bind (bind m f) g = bind m (\<lambda>x. bind (f x) g)"
  by (rule ext) (simp add: bind_def split: prod.splits sum.splits)

lemma bind_ret [simp]: "bind (ret x) f = f x"
  by (rule ext) (simp add: bind_def ret_def)

lemma handle_split:
  "\<not> aborted host \<Longrightarrow> truthy (podId ev) \<Longrightarrow>
     handleEvent host cfg net ev = bind (before_ack host cfg net ev) (\<lambda>_. ack_if_id cfg net ev)"
  by (simp add: handleEvent_def before_ack_def Let_def bind_assoc
      if_distrib [where f = "\<lambda>m. bind m f" for f] cong: if_cong)

lemma before_ack_ext:
  "\<exists>ext. snd (before_ack host cfg net ev tr) = tr @ ext \<and> ack_ids ext = []
     \<and> dispatches ext =
         (if ev_type ev \<noteq> ''summary.request'' \<and> rawContent_of ev \<noteq> []
          then [(dispatched_context host ev, configuredPrefix host)] else [])"
proof (cases "ev_type ev = ''summary.request''")
  case True
  obtain e where e: "snd (postMessage cfg net (the (podId ev))
      (buildSummaryMessage (Option.bind (payload ev) summary)) [] (tr @ [SetStatus InboundSeen]))
      = (tr @ [SetStatus InboundSeen]) @ e" "quiet e"
    using postMessage_ext by blast
  show ?thesis
    using True e
    by (auto simp: before_ack_def Let_def bind_def emit_def ret_def quiet_def
        split: prod.splits sum.splits)
next
  case ns: False
  show ?thesis
  proof (cases "rawContent_of ev = []")
    case True
    then show ?thesis using ns by (simp add: before_ack_def Let_def bind_def emit_def ret_def)
  next
    case False
    define c where "c = dispatched_context host ev"
    define t0 where "t0 = tr @ [SetStatus InboundSeen, RecordInbound c]
        @ (case record_error host c of None \<Rightarrow> []
           | Some err \<Rightarrow> [LogWarn (''[commonly] failed updating session meta: '' @ err)])
        @ [Dispatch c (configuredPrefix host)]"
    define th where
      "th = (if ev_type ev = ''thread.mention'' then map_option postId (payload_thread ev) else None)"
    obtain e where e:
      "dispatch_blocks (deliver host cfg net ev (the (podId ev)) th) (reply_blocks host c) False t0
         = t0 @ e" "quiet e"
      using dispatch_blocks_ext [of "deliver host cfg net ev (the (podId ev)) th", OF deliver_ext]
      by blast
    have "snd (before_ack host cfg net ev tr) = t0 @ e"
      using ns False e(1)
      by (simp add: before_ack_def Let_def bind_def emit_def ret_def c_def [symmetric]
          dispatched_context_def [symmetric] th_def [symmetric] t0_def split: option.splits)
    then show ?thesis
      using ns False e(2) by (simp add: t0_def c_def quiet_def split: option.splits)
  qed
qed

lemma ack_if_id_grows: "\<exists>e. snd (ack_if_id cfg net ev t) = t @ e \<and> dispatches e = []"
  by (auto simp: ack_if_id_def ackEvent_def runtimeHeaders_def Let_def io_defs
      split: option.splits sum.splits if_splits)

text \<open>Which contexts the handler dispatches for an event that passed the two guards.\<close>

lemma handle_dispatches:
  assumes "\<not> aborted host" and "truthy (podId ev)"
  shows "dispatches (drop (length tr) (snd (handleEvent host cfg net ev tr)))
           = (if ev_type ev \<noteq> ''summary.request'' \<and> rawContent_of ev \<noteq> []
              then [(dispatched_context host ev, configuredPrefix host)] else [])"
proof -
  obtain r t1 where b: "before_ack host cfg net ev tr = (r, t1)" by force
  obtain pre where pre: "t1 = tr @ pre" "dispatches pre =
         (if ev_type ev \<noteq> ''summary.request'' \<and> rawContent_of ev \<noteq> []
          then [(dispatched_context host ev, configuredPrefix host)] else [])"
    using before_ack_ext [of host cfg net ev tr] b by auto
  obtain e where e: "snd (ack_if_id cfg net ev t1) = t1 @ e" "dispatches e = []"
    using ack_if_id_grows by blast
  have "snd (handleEvent host cfg net ev tr) = (case r of Inl x \<Rightarrow> t1 | Inr u \<Rightarrow> t1 @ e)"
    using handle_split [OF assms] b e(1) by (simp add: bind_def split: sum.splits)
  then show ?thesis using pre e(2) by (cases r) auto
qed

lemmas handler_defs = handleEvent_def rawContent_of_def ack_if_id_def ackEvent_def postMessage_def
  postThreadComment_def reportEnsembleResponse_def runtimeHeaders_def mk_request_def deliver_def
  sanitizeOutboundText_def inbound_context_def formatThreadBody_def formatEnsembleTurnBody_def
  payload_content_def payload_thread_def payload_postContent_def posted_id_def with_identity_def
  opt_field_def starter_sentence_def participant_name_def slice_last_def show_int_def
  digit_char_def failed_def ack_request_def

lemmas sample_defs = test_host_def test_cfg_def ok_net_def ok_response_def test_route_def
  empty_payload_def heartbeat_event_def ensemble_event_def unknown_event_def thread_event_def
  podless_event_def

lemma show_nat_0 [simp]: "show_nat 0 = ''0''"
  by (simp add: show_nat.simps digit_char_def)

section \<open>Acknowledgment\<close>

lemma ackEvent_sends:
  "truthy (opt_trim (runtimeToken cfg)) \<Longrightarrow>
     snd (ackEvent cfg net i t) = t @ [Fetch (ack_request cfg i)]"
  by (auto simp: ackEvent_def ack_request_def rt_present io_defs split: option.splits)

lemma ackEvent_silent:
  "\<not> truthy (opt_trim (runtimeToken cfg)) \<Longrightarrow> snd (ackEvent cfg net i t) = t"
  by (simp add: runtime_scoped_raise)

lemma before_ack_plain:
  "ev_type ev \<noteq> ''summary.request'' \<Longrightarrow> fst (before_ack host cfg net ev tr) = Inr ()"
  by (simp add: before_ack_def Let_def bind_def emit_def ret_def split: option.splits)

lemma before_ack_summary:
  "ev_type ev = ''summary.request'' \<Longrightarrow>
     (fst (before_ack host cfg net ev tr) = Inr ()) = summary_post_ok cfg net ev tr"
  by (auto simp: before_ack_def summary_post_ok_def Let_def bind_def emit_def ret_def
      split: prod.splits sum.splits)

text \<open>
  C7, as stated, fails: a \<open>summary.request\<close> event with an id whose summary post is
  answered with a non-success status passed the guards, yet it is never acknowledged, since
  \<open>postMessage\<close> throws before the handler reaches \<open>ackEvent\<close>.
\<close>

theorem summary_post_failure_counterexample:
  "\<not> aborted test_host \<and> truthy (podId summary_event) \<and> truthy (ev_id summary_event)
   \<and> fst (handleEvent test_host test_cfg failing_net summary_event [])
       = Inl (Error ''Failed to post message: 500'')
   \<and> ack_ids (snd (handleEvent test_host test_cfg failing_net summary_event [])) = []"
  by (simp add: handler_defs sample_defs string_defs io_defs Let_def summary_event_def
      failing_net_def failed_response_def buildSummaryMessage_def show_nat_500)

text \<open>
  C7, amended. For an event that passed the guards (no abort, a pod id) and carries an id:
  the handler sends at most one acknowledgment, it acknowledges that event, and it is the
  last thing the handler does, so it comes only after the reply dispatch, when there is one,
  and after the delivery of every reply block, be there none, one or many. With a runtime
  token, the acknowledgment is sent exactly once for every event other than
  \<open>summary.request\<close>, whatever the network answers; for \<open>summary.request\<close> it is sent
  exactly once when there is no summary text or the summary post returned, and not at all
  when the summary post failed. Without a runtime token no acknowledgment is sent.
\<close>

theorem ack_after_dispatch:
  assumes "\<not> aborted host" and "truthy (podId ev)" and "truthy (ev_id ev)"
  shows "\<exists>pre. ack_ids pre = []
           \<and> dispatches pre =
               (if ev_type ev \<noteq> ''summary.request'' \<and> rawContent_of ev \<noteq> []
                then [(dispatched_context host ev, configuredPrefix host)] else [])
           \<and> (snd (handleEvent host cfg net ev tr) = tr @ pre
              \<or> snd (handleEvent host cfg net ev tr)
                  = tr @ pre @ [Fetch (ack_request cfg (the (ev_id ev)))])
           \<and> (truthy (opt_trim (runtimeToken cfg)) \<and> ev_type ev \<noteq> ''summary.request'' \<longrightarrow>
                snd (handleEvent host cfg net ev tr)
                  = tr @ pre @ [Fetch (ack_request cfg (the (ev_id ev)))])
           \<and> (truthy (opt_trim (runtimeToken cfg)) \<and> ev_type ev = ''summary.request'' \<longrightarrow>
                (snd (handleEvent host cfg net ev tr)
                   = tr @ pre @ [Fetch (ack_request cfg (the (ev_id ev)))])
                  = summary_post_ok cfg net ev tr)
           \<and> (\<not> truthy (opt_trim (runtimeToken cfg)) \<longrightarrow>
                snd (handleEvent host cfg net ev tr) = tr @ pre)"
proof -
  let ?ack = "Fetch (ack_request cfg (the (ev_id ev)))"
  let ?H = "handleEvent host cfg net ev tr"
  obtain r t1 where b: "before_ack host cfg net ev tr = (r, t1)" by force
  obtain pre where pre: "t1 = tr @ pre" "ack_ids pre = []"
    "dispatches pre =
       (if ev_type ev \<noteq> ''summary.request'' \<and> rawContent_of ev \<noteq> []
        then [(dispatched_context host ev, configuredPrefix host)] else [])"
    using before_ack_ext [of host cfg net ev tr] b by auto
  have h: "?H = (case r of Inl e \<Rightarrow> (Inl e, t1) | Inr u \<Rightarrow> ackEvent cfg net (the (ev_id ev)) t1)"
    using handle_split [OF assms(1,2)] b assms(3)
    by (simp add: bind_def ack_if_id_def split: sum.splits)
  have raised: "snd ?H = tr @ pre" if "r = Inl e" for e
    using that h pre(1) by simp
  have sent: "snd ?H = tr @ pre @ [?ack]"
    if "r = Inr ()" "truthy (opt_trim (runtimeToken cfg))"
    using that h pre(1) ackEvent_sends [of cfg net "the (ev_id ev)" t1] by simp
  have silent: "snd ?H = tr @ pre" if "\<not> truthy (opt_trim (runtimeToken cfg))"
    using that h pre(1) ackEvent_silent [of cfg net "the (ev_id ev)" t1] by (cases r) auto
  have either: "snd ?H = tr @ pre \<or> snd ?H = tr @ pre @ [?ack]"
  proof (cases r)
    case (Inl e)
    then show ?thesis using raised by simp
  next
    case (Inr u)
    then show ?thesis
      using sent silent by (cases "truthy (opt_trim (runtimeToken cfg))") auto
  qed
  have plain: "snd ?H = tr @ pre @ [?ack]"
    if "truthy (opt_trim (runtimeToken cfg))" "ev_type ev \<noteq> ''summary.request''"
    using that sent before_ack_plain [of ev host cfg net tr] b by simp
  have summ: "(snd ?H = tr @ pre @ [?ack]) = summary_post_ok cfg net ev tr"
    if "truthy (opt_trim (runtimeToken cfg))" "ev_type ev = ''summary.request''"
  proof (cases r)
    case (Inl e)
    then have "\<not> summary_post_ok cfg net ev tr"
      using before_ack_summary [OF that(2), of host cfg net tr] b by simp
    then show ?thesis using raised [OF Inl] by simp
  next
    case (Inr u)
    then have "summary_post_ok cfg net ev tr"
      using before_ack_summary [OF that(2), of host cfg net tr] b by simp
    then show ?thesis using sent that(1) Inr by simp
  qed
  show ?thesis
    using pre(2,3) either plain summ silent by blast
qed

lemma sample_guards:
  "\<not> aborted test_host" "truthy (podId ensemble_event)" "truthy (ev_id ensemble_event)"
  "truthy (podId summary_event)" "truthy (ev_id summary_event)"
  "the (ev_id ensemble_event) = ''event-123''" "the (ev_id summary_event) = ''evt-summary''"
  "ev_type ensemble_event \<noteq> ''summary.request''" "ev_type summary_event = ''summary.request''"
  by (simp_all add: test_host_def ensemble_event_def summary_event_def truthy_def)

lemma sample_summary_posts:
  "summary_post_ok test_cfg ok_net summary_event []"
  "\<not> summary_post_ok test_cfg failing_net summary_event []"
  by (simp_all add: summary_post_ok_def summary_event_def empty_payload_def buildSummaryMessage_def
      postMessage_def runtimeHeaders_def mk_request_def test_cfg_def ok_net_def ok_response_def
      failing_net_def failed_response_def string_defs io_defs Let_def)

lemma ack_request_endpoint [simp]: "req_endpoint (ack_request cfg i) = EpAck i"
  by (simp add: ack_request_def mk_request_def)

lemma sample_ensemble_body: "rawContent_of ensemble_event \<noteq> []"
  by (simp add: rawContent_of_def formatEnsembleTurnBody_def ensemble_event_def empty_payload_def)

theorem ack_after_dispatch_witness:
  "\<not> aborted test_host \<and> truthy (podId ensemble_event) \<and> truthy (ev_id ensemble_event)
   \<and> truthy (opt_trim (runtimeToken test_cfg)) \<and> ev_type ensemble_event \<noteq> ''summary.request''
   \<and> length (reply_blocks test_host (dispatched_context test_host ensemble_event)) = 3
   \<and> ack_ids (snd (handleEvent test_host test_cfg ok_net ensemble_event [])) = [''event-123'']
   \<and> last (snd (handleEvent test_host test_cfg ok_net ensemble_event []))
       = Fetch (ack_request test_cfg ''event-123'')
   \<and> length (dispatches (snd (handleEvent test_host test_cfg ok_net ensemble_event []))) = 1
   \<and> ack_ids (snd (handleEvent test_host test_cfg failing_net ensemble_event [])) = [''event-123'']
   \<and> truthy (podId summary_event) \<and> truthy (ev_id summary_event)
   \<and> ev_type summary_event = ''summary.request''
   \<and> summary_post_ok test_cfg ok_net summary_event []
   \<and> ack_ids (snd (handleEvent test_host test_cfg ok_net summary_event [])) = [''evt-summary'']
   \<and> \<not> summary_post_ok test_cfg failing_net summary_event []
   \<and> ack_ids (snd (handleEvent test_host test_cfg failing_net summary_event [])) = []
   \<and> \<not> truthy (opt_trim (runtimeToken no_token_cfg))
   \<and> ack_ids (snd (handleEvent test_host no_token_cfg ok_net ensemble_event [])) = []"
proof -
  note g = sample_guards
  have e1: "ack_ids (snd (handleEvent test_host test_cfg ok_net ensemble_event [])) = [''event-123'']
    \<and> last (snd (handleEvent test_host test_cfg ok_net ensemble_event []))
        = Fetch (ack_request test_cfg ''event-123'')
    \<and> length (dispatches (snd (handleEvent test_host test_cfg ok_net ensemble_event []))) = 1"
    using ack_after_dispatch [OF g(1,2,3), of test_cfg ok_net "[]"] g(6,8) sample_tokens(6)
      sample_ensemble_body
    by auto
  have e2: "ack_ids (snd (handleEvent test_host test_cfg failing_net ensemble_event []))
              = [''event-123'']"
    using ack_after_dispatch [OF g(1,2,3), of test_cfg failing_net "[]"] g(6,8) sample_tokens(6)
    by auto
  have s1: "ack_ids (snd (handleEvent test_host test_cfg ok_net summary_event [])) = [''evt-summary'']"
    using ack_after_dispatch [OF g(1,4,5), of test_cfg ok_net "[]"] g(7,9) sample_tokens(6)
      sample_summary_posts(1)
    by auto
  have s2: "ack_ids (snd (handleEvent test_host test_cfg failing_net summary_event [])) = []"
    using ack_after_dispatch [OF g(1,4,5), of test_cfg failing_net "[]"] g(7,9) sample_tokens(6)
      sample_summary_posts(2)
    by auto
  have n: "ack_ids (snd (handleEvent test_host no_token_cfg ok_net ensemble_event [])) = []"
    using ack_after_dispatch [OF g(1,2,3), of no_token_cfg ok_net "[]"] sample_tokens(1)
    by auto
  show ?thesis
    using e1 e2 s1 s2 n g sample_tokens(1,6) sample_summary_posts
    by (simp add: test_host_def)
qed

section \<open>Event types outside the recognized set\<close>

text \<open>
  C3, as stated, fails at the account handler: an event whose type is not among the recognized
  ones and whose payload has content is dispatched to the reply pipeline like a plain message.
\<close>

theorem unknown_type_dispatched_counterexample:
  "ev_type unknown_event \<notin> set recognized_types
   \<and> map (Body \<circ> fst) (dispatches (snd (handleEvent test_host test_cfg ok_net unknown_event [])))
       = [''hello there'']"
  by (simp add: handler_defs sample_defs string_defs io_defs Let_def recognized_types_def)

text \<open>
  C3, amended. For an event type outside the recognized set, \<open>transformEvent\<close> of the
  standalone channel yields no inbound message: it returns \<open>null\<close> and logs the type (it is
  a total function, so nothing is raised). The account handler has no such branch: once the
  event passed the guards it dispatches the event exactly when its trimmed payload content
  is non-empty, and dispatches nothing when that content is empty.
\<close>

theorem unrecognized_type_handling:
  "ev_type ev \<notin> set recognized_types \<longrightarrow>
     transformEvent (ev_type ev) pod pl eid
       = (None, [''[commonly] Unknown event type: '' @ ev_type ev])
     \<and> (\<not> aborted host \<and> truthy (podId ev) \<longrightarrow>
          dispatches (drop (length tr) (snd (handleEvent host cfg net ev tr)))
            = (if or_else (opt_trim (payload_content ev)) [] = [] then []
               else [(dispatched_context host ev, configuredPrefix host)]))"
  using handle_dispatches [of host ev tr cfg net]
  by (auto simp: recognized_types_def transformEvent_def rawContent_of_def)

theorem unrecognized_type_handling_witness:
  "ev_type unknown_event \<notin> set recognized_types
   \<and> \<not> aborted test_host \<and> truthy (podId unknown_event)
   \<and> or_else (opt_trim (payload_content unknown_event)) [] = ''hello there''
   \<and> fst (transformEvent (ev_type unknown_event) ''pod-1'' empty_payload ''evt-9'') = None
   \<and> length (dispatches (snd (handleEvent test_host test_cfg ok_net unknown_event []))) = 1"
  using unrecognized_type_handling [where ev = unknown_event and host = test_host and tr = "[]"
      and cfg = test_cfg and net = ok_net and pod = "''pod-1''" and pl = empty_payload
      and eid = "''evt-9''"]
  by (simp add: recognized_types_def unknown_event_def test_host_def empty_payload_def
      payload_content_def string_defs)

section \<open>Heartbeat events\<close>

text \<open>
  C1. The code has no heartbeat branch. For the heartbeat event of the repository's own test,
  which has no payload content, the handler computes an empty body, acknowledges the event and
  returns: nothing is dispatched. The standalone channel's \<open>transformEvent\<close> returns
  \<open>null\<close> for it.
\<close>

theorem heartbeat_not_dispatched:
  "rawContent_of heartbeat_event = []
   \<and> handleEvent test_host test_cfg ok_net heartbeat_event []
       = (Inr (), [SetStatus InboundSeen, Fetch (ack_request test_cfg ''evt-heartbeat'')])
   \<and> fst (transformEvent ''heartbeat'' ''pod-1'' empty_payload ''evt-heartbeat'') = None"
  by (simp add: handler_defs sample_defs string_defs io_defs transformEvent_def)

section \<open>Ensemble turns\<close>

text \<open>
  The third line of a synthesized ensemble body is the starter sentence when \<open>isStarter\<close>
  holds and the responder sentence otherwise.
\<close>

lemma ensemble_body_lines:
  assumes "Option.bind (payload ev) ens_context = Some cx"
  shows "\<exists>rest. formatEnsembleTurnBody ev =
           ''Ensemble topic: '' @ topic cx @ newline
           @ ''Turn: '' @ show_int (turnNumber cx) @ '' (round '' @ show_int (roundNumber cx) @ '')''
           @ newline @ starter_sentence (isStarter cx) @ rest"
proof -
  have j: "\<exists>rest. join newline (a # b # c # xs) = a @ newline @ b @ newline @ c @ rest" for a b c xs
    by (cases xs) auto
  show ?thesis
    using assms j by (simp add: formatEnsembleTurnBody_def Let_def)
qed

text \<open>
  C2. The handler gives the dispatcher the configured response prefix whatever the event type
  is. For the \<open>ensemble.turn\<close> event of the repository's own test and the configured prefix
  \<open>My response:\<close>, the dispatcher options carry that prefix.
\<close>

theorem ensemble_turn_prefix_passed:
  "ev_type ensemble_event = ''ensemble.turn'' \<and> configuredPrefix test_host = Some ''My response:''
   \<and> map snd (dispatches (snd (handleEvent test_host test_cfg ok_net ensemble_event [])))
       = [Some ''My response:'']"
  by (simp add: handler_defs sample_defs string_defs io_defs Let_def)

section \<open>Replay of the subscription set\<close>

text \<open>
  C6, as stated, fails: on a connection without a socket handle (before \<open>connect()\<close> or
  after \<open>disconnect()\<close>) \<open>subscribe\<close> returns at once and the tracked set stays as it was.
\<close>

theorem subscribe_without_socket_counterexample:
  "set (subscribedPodIds (subscribe [''pod-1''] new_ws))
     \<noteq> set (subscribedPodIds new_ws) \<union> set [''pod-1'']"
  by (simp add: subscribe_def new_ws_def)

text \<open>
  C6, amended. Without a socket handle \<open>subscribe\<close> and \<open>unsubscribe\<close> change nothing.
  With a handle, whether or not the socket is connected at that moment, a call with a
  non-empty list updates the tracked set at once (union, resp. difference). On every
  \<open>connect\<close> event the tracked set is unchanged and, when it is non-empty, exactly one
  subscribe call carrying the whole set is emitted; when it is empty, none.
\<close>

theorem tracked_set_replay:
  "(socket ws = None \<longrightarrow> subscribe podIds ws = ws \<and> unsubscribe podIds ws = ws)
   \<and> (socket ws \<noteq> None \<and> podIds \<noteq> [] \<longrightarrow>
        set (subscribedPodIds (subscribe podIds ws)) = set (subscribedPodIds ws) \<union> set podIds
        \<and> set (subscribedPodIds (unsubscribe podIds ws)) = set (subscribedPodIds ws) - set podIds)
   \<and> (socket ws \<noteq> None \<longrightarrow>
        subscribedPodIds (on_connect ws) = subscribedPodIds ws
        \<and> emitted (on_connect ws) =
            emitted ws @ (if subscribedPodIds ws = [] then [] else [Subscribe (subscribedPodIds ws)]))"
  by (auto simp: subscribe_def unsubscribe_def socket_emit_def set_uniq on_connect_def
      emitStatus_def Let_def)

lemma dropped_ws:
  "socket (on_disconnect ''transport close'' (subscribe [''pod-1'', ''pod-2''] connected_ws))
     = Some False"
  "subscribedPodIds (on_disconnect ''transport close'' (subscribe [''pod-1'', ''pod-2''] connected_ws))
     = [''pod-1'', ''pod-2'']"
  "emitted (on_disconnect ''transport close'' (subscribe [''pod-1'', ''pod-2''] connected_ws))
     = [Subscribe [''pod-1'', ''pod-2'']]"
  by (simp_all add: on_disconnect_def emitStatus_def subscribe_def socket_emit_def
      connected_ws_simps uniq_def)

theorem tracked_set_replay_witness:
  "socket new_ws = None \<and> subscribe [''pod-1''] new_ws = new_ws
   \<and> unsubscribe [''pod-1''] new_ws = new_ws
   \<and> socket (on_disconnect ''transport close'' (subscribe [''pod-1'', ''pod-2''] connected_ws))
       = Some False
   \<and> set (subscribedPodIds (subscribe [''pod-3'']
             (on_disconnect ''transport close'' (subscribe [''pod-1'', ''pod-2''] connected_ws))))
       = {''pod-1'', ''pod-2'', ''pod-3''}
   \<and> set (subscribedPodIds (unsubscribe [''pod-1'']
             (on_disconnect ''transport close'' (subscribe [''pod-1'', ''pod-2''] connected_ws))))
       = {''pod-2''}
   \<and> emitted (on_connect
        (on_disconnect ''transport close'' (subscribe [''pod-1'', ''pod-2''] connected_ws)))
       = [Subscribe [''pod-1'', ''pod-2''], Subscribe [''pod-1'', ''pod-2'']]
   \<and> emitted (on_connect connected_ws) = []"
  using tracked_set_replay [where ws = new_ws and podIds = "[''pod-1'']"]
    tracked_set_replay
      [where ws = "on_disconnect ''transport close'' (subscribe [''pod-1'', ''pod-2''] connected_ws)"
        and podIds = "[''pod-3'']"]
    tracked_set_replay
      [where ws = "on_disconnect ''transport close'' (subscribe [''pod-1'', ''pod-2''] connected_ws)"
        and podIds = "[''pod-1'']"]
    tracked_set_replay [where ws = connected_ws and podIds = "[''pod-1'']"]
  by (simp add: dropped_ws connected_ws_simps new_ws_def) auto

section \<open>Thread mentions\<close>

text \<open>
  C9, as stated, fails: the body is built from the trimmed contents, so a post content with
  white space around it does not appear as it is.
\<close>

theorem thread_body_untrimmed_counterexample:
  "formatThreadBody (thread_event '' X'' (Some ''Y''))
     \<noteq> ''Post: '' @ '' X'' @ newline @ newline @ ''Comment: '' @ ''Y''"
  by (simp add: formatThreadBody_def thread_event_def payload_postContent_def payload_thread_def
      payload_content_def empty_payload_def string_defs)

text \<open>
  C9, amended. With \<open>P\<close> the trimmed post content and \<open>C\<close> the trimmed comment content:
  when the referenced post has content and \<open>C\<close> is non-empty, the body is \<open>Post: P\<close>, two
  newlines, \<open>Comment: C\<close>; when the post has content and \<open>C\<close> is empty, it is \<open>Post: P\<close>
  alone; when the post has no content, it is \<open>C\<close>.
\<close>

theorem thread_body_format:
  "(truthy (payload_postContent ev) \<and> or_else (opt_trim (payload_content ev)) [] \<noteq> [] \<longrightarrow>
      formatThreadBody ev =
        ''Post: '' @ trim (the (payload_postContent ev)) @ newline @ newline
          @ ''Comment: '' @ or_else (opt_trim (payload_content ev)) [])
   \<and> (truthy (payload_postContent ev) \<and> or_else (opt_trim (payload_content ev)) [] = [] \<longrightarrow>
      formatThreadBody ev = ''Post: '' @ trim (the (payload_postContent ev)))
   \<and> (\<not> truthy (payload_postContent ev) \<longrightarrow>
      formatThreadBody ev = or_else (opt_trim (payload_content ev)) [])"
  by (simp add: formatThreadBody_def Let_def)

lemma thread_event_simps:
  "payload_postContent (thread_event p c) = Some p"
  "payload_content (thread_event p c) = c"
  by (simp_all add: thread_event_def payload_postContent_def payload_thread_def payload_content_def
      empty_payload_def)

lemma trim_samples: "trim '' X '' = ''X''" "trim ''Y'' = ''Y''" "trim ''  '' = []" "trim [] = []"
  by (simp_all add: trim_def is_ws_def)

theorem thread_body_format_witness:
  "formatThreadBody (thread_event '' X '' (Some ''Y''))
     = ''Post: X'' @ newline @ newline @ ''Comment: Y''
   \<and> formatThreadBody (thread_event '' X '' (Some ''  '')) = ''Post: X''
   \<and> formatThreadBody (thread_event [] (Some ''Y'')) = ''Y''"
  using thread_body_format [of "thread_event '' X '' (Some ''Y'')"]
    thread_body_format [of "thread_event '' X '' (Some ''  '')"]
    thread_body_format [of "thread_event [] (Some ''Y'')"]
  by (simp add: thread_event_simps trim_samples truthy_def opt_trim_def or_else_def)


end
